theory Spec2Isabelle
  imports Complex_Main "HOL-Library.Log_Nat"
begin

section \<open>JavaScript numbers\<close>

text \<open>
  Every TypeScript \<open>number\<close> is an IEEE-754 binary64 value.  The satoshi and cent
  amounts of the game are whole numbers far below \<open>2^53\<close>, where \<open>+\<close>, \<open>-\<close>
  and \<open>*\<close> on whole numbers are exact; these are modelled by \<open>int\<close>.  Wherever
  the source multiplies or divides by a constant that is not a whole number
  (\<open>pct / 100\<close>, \<open>1 - 3 / 100\<close>, \<open>1.1\<close>) the result of each operation is rounded to
  the nearest binary64 value, ties to even.  \<open>fl\<close> is that rounding, on rationals, for
  the normal range (no overflow to infinity, no subnormals, no NaN: none of them
  arises from the amounts handled here).
\<close>

definition binade :: "rat \<Rightarrow> int" where
  "binade x = (case quotient_of x of (p, q) \<Rightarrow>
     (let k = bitlen p - bitlen q in if 2 powi k \<le> x then k else k - 1))"

definition rne :: "rat \<Rightarrow> int" where
  "rne t = (let f = \<lfloor>t\<rfloor>; d = t - of_int f
            in if d < 1 / 2 then f else if 1 / 2 < d then f + 1
               else if even f then f else f + 1)"

definition flpos :: "rat \<Rightarrow> rat" where
  "flpos x = (let u = 2 powi (binade x - 52) in of_int (rne (x / u)) * u)"

definition fl :: "rat \<Rightarrow> rat" where
  "fl x = (if x = 0 then 0 else if x < 0 then - flpos (- x) else flpos x)"


definition js_sub :: "rat \<Rightarrow> rat \<Rightarrow> rat" where
  "js_sub x y = fl (x - y)"

definition js_mul :: "rat \<Rightarrow> rat \<Rightarrow> rat" where
  "js_mul x y = fl (x * y)"

definition js_div :: "rat \<Rightarrow> rat \<Rightarrow> rat" where
  "js_div x y = fl (x / y)"

definition Math_ceil :: "rat \<Rightarrow> int" where
  "Math_ceil x = \<lceil>x\<rceil>"

definition Math_floor :: "rat \<Rightarrow> int" where
  "Math_floor x = \<lfloor>x\<rfloor>"

section \<open>Constants.ts\<close>

record StakeTierDef =
  tier :: int
  name :: string
  depositCents :: int
  baseCents :: int

definition STAKE_TIERS :: "StakeTierDef list" where
  "STAKE_TIERS =
    [ \<lparr>tier = 1, name = ''Penny'', depositCents = 1, baseCents = 1\<rparr>,
      \<lparr>tier = 25, name = ''Quarter'', depositCents = 25, baseCents = 25\<rparr>,
      \<lparr>tier = 50, name = ''Half'', depositCents = 50, baseCents = 50\<rparr>,
      \<lparr>tier = 100, name = ''Dollar'', depositCents = 100, baseCents = 100\<rparr>,
      \<lparr>tier = 500, name = ''Five'', depositCents = 500, baseCents = 500\<rparr>,
      \<lparr>tier = 1000, name = ''Ten'', depositCents = 1000, baseCents = 1000\<rparr> ]"

definition getTierByValue :: "int \<Rightarrow> StakeTierDef option" where
  "getTierByValue v = find (\<lambda>t. tier t = v) STAKE_TIERS"

text \<open>\<open>ChessPieceType = 'k' | 'q' | 'r' | 'b' | 'n' | 'p'\<close>, in that order.\<close>

datatype ChessPieceType = King | Queen | Rook | Bishop | Knight | Pawn

fun PIECE_CAPTURE_PERCENT :: "ChessPieceType \<Rightarrow> int" where
  "PIECE_CAPTURE_PERCENT King = 100"
| "PIECE_CAPTURE_PERCENT Queen = 90"
| "PIECE_CAPTURE_PERCENT Rook = 80"
| "PIECE_CAPTURE_PERCENT Bishop = 70"
| "PIECE_CAPTURE_PERCENT Knight = 70"
| "PIECE_CAPTURE_PERCENT Pawn = 20"

definition PLATFORM_CUT_PERCENT :: int where
  "PLATFORM_CUT_PERCENT = 3"

record PlatformSplit =
  recipientSats :: int
  splitPlatformSats :: int

text \<open>
  \<open>totalSats * PLATFORM_CUT_PERCENT / 100\<close> is the product of two whole numbers
  followed by one rounded division.
\<close>

definition applyPlatformCut :: "int \<Rightarrow> PlatformSplit" where
  "applyPlatformCut totalSats =
     (let platformSats =
            Math_ceil (js_div (js_mul (of_int totalSats) (of_int PLATFORM_CUT_PERCENT)) 100)
      in \<lparr>recipientSats = totalSats - platformSats, splitPlatformSats = platformSats\<rparr>)"

datatype Error = Invalid_BSV_price

definition centsToSats :: "rat \<Rightarrow> rat \<Rightarrow> Error + int" where
  "centsToSats cents bsvPriceUsd =
     (if bsvPriceUsd \<le> 0 then Inl Invalid_BSV_price
      else let dollars = js_div cents 100;
               bsv = js_div dollars bsvPriceUsd
           in Inr (Math_ceil (js_mul bsv 100000000)))"



datatype GameEndReason =
    Checkmate | Stalemate | Resignation | Disconnect | Timeout | Insufficient_funds
  | Draw_agreement | Threefold_repetition | Fifty_move_rule | Insufficient_material

section \<open>The position engine (chess.js), taken as a parameter\<close>

text \<open>
  \<open>chess.js\<close> is not part of the repository.  The manager only calls the
  operations below on its \<open>Chess\<close> instance; \<open>chess_move\<close> returns the applied move
  and the new position, or \<open>None\<close> where the source sees a falsy result.
\<close>

datatype ChessColor = Color_w | Color_b

record Move =
  mv_san :: string
  mv_from :: string
  mv_to :: string
  mv_color :: ChessColor
  mv_captured :: "ChessPieceType option"

record 'pos ChessEngine =
  chess_new :: 'pos
  chess_turn :: "'pos \<Rightarrow> ChessColor"
  chess_move :: "'pos \<Rightarrow> string \<Rightarrow> string \<Rightarrow> string option \<Rightarrow> (Move \<times> 'pos) option"
  chess_isCheckmate :: "'pos \<Rightarrow> bool"
  chess_isStalemate :: "'pos \<Rightarrow> bool"
  chess_isThreefoldRepetition :: "'pos \<Rightarrow> bool"
  chess_isInsufficientMaterial :: "'pos \<Rightarrow> bool"
  chess_isDraw :: "'pos \<Rightarrow> bool"
  chess_isCheck :: "'pos \<Rightarrow> bool"
  chess_fen :: "'pos \<Rightarrow> string"

section \<open>ChessGameManager.ts: types\<close>

datatype GamePhase = Awaiting_wagers | Playing | Paused | Gameover

datatype PlayerSlot = White | Black

record PlayerState =
  socketId :: string
  address :: string
  username :: string
  color :: PlayerSlot
  wagerPaid :: bool
  moveCount :: nat
  connected :: bool
  disconnectedAt :: "nat option"

record PendingPayment =
  pp_fromSlot :: PlayerSlot
  pp_amount :: int
  pp_toAddress :: string

record CapturePayment =
  fromSlot :: PlayerSlot
  toSlot :: PlayerSlot
  piece :: ChessPieceType
  amountSats :: int
  capturerSats :: int
  platformSats :: int
  paid :: bool
  txid :: "string option"

record MoveRecord =
  rec_san :: string
  rec_from :: string
  rec_to :: string
  rec_color :: ChessColor

record 'pos GameState =
  gid :: string
  phase :: GamePhase
  gtier :: StakeTierDef
  depositSats :: int
  baseSats :: int
  bsvPriceAtStart :: rat
  chess :: 'pos
  white :: PlayerState
  black :: PlayerState
  pot :: int
  pendingPayment :: "PendingPayment option"
  capturePayments :: "CapturePayment list"
  pausedFor :: "PlayerSlot option"
  pausedAt :: "nat option"
  pauseReason :: "string option"
  createdAt :: nat
  startedAt :: "nat option"
  endedAt :: "nat option"
  endReason :: "GameEndReason option"
  winner :: "PlayerSlot option"
  turnStartedAt :: nat
  moveHistory :: "MoveRecord list"

record GameOverResult =
  res_winner :: "PlayerSlot option"
  res_loser :: "PlayerSlot option"
  res_reason :: GameEndReason
  res_pot :: int
  winnerPayout :: int
  loserPayout :: int
  platformCut :: int
  whiteAddress :: string
  blackAddress :: string

record CaptureInfo =
  victimSlot :: PlayerSlot
  capturerSlot :: PlayerSlot
  ci_piece :: ChessPieceType
  ci_amountSats :: int
  ci_capturerSats :: int
  ci_platformSats :: int

record MoveResult =
  success :: bool
  error :: "string option"
  san :: "string option"
  fen :: "string option"
  move :: "MoveRecord option"
  capturePayment :: "CaptureInfo option"
  isCheck :: "bool option"
  isCheckmate :: "bool option"
  isStalemate :: "bool option"
  isDraw :: "bool option"
  drawReason :: "string option"
  gameOver :: "bool option"
  gameOverResult :: "GameOverResult option"

record WagerRequest =
  wr_amount :: int
  wr_toAddress :: string

record WagerConfirm =
  wc_success :: bool
  bothPaid :: bool
  wc_error :: "string option"

record DrawOffer =
  od_success :: bool
  opponentSocketId :: "string option"
  od_error :: "string option"

record DrawAccept =
  ad_success :: bool
  ad_result :: "GameOverResult option"
  ad_error :: "string option"

record WagerRefund =
  refund_address :: string
  refund_amount :: int

record DisconnectResult =
  dc_gameId :: string
  dc_slot :: PlayerSlot
  graceStarted :: bool
  immediateResult :: "GameOverResult option"
  wagerRefund :: "WagerRefund option"

record 'pos ReconnectResult =
  rc_success :: bool
  rc_game :: "'pos GameState option"
  rc_slot :: "PlayerSlot option"
  rc_error :: "string option"

subsection \<open>Timers and callbacks\<close>

text \<open>
  \<open>setTimeout\<close> hands a closure to the runtime and returns a handle; the closure
  stays scheduled until it fires or \<open>clearTimeout\<close> is called on its handle.  The
  three closures of the manager are the three tasks below; each holds the id of the
  game object it captured (\<open>createGame\<close> registers every game under its own id, and
  no operation reassigns an id).  \<open>scheduled\<close> is the runtime's list of pending
  timeouts: handle, delay in milliseconds, task.
\<close>

datatype TimerTask =
    TurnTimeout string
  | PauseTimeout string PlayerSlot
  | DisconnectTimeout string PlayerSlot

datatype Callback =
    OnTurnTimeout string PlayerSlot PlayerSlot
  | OnPauseTimeout string PlayerSlot PlayerSlot
  | OnFundsNeeded string PlayerSlot int
  | OnDisconnectTimeout string PlayerSlot PlayerSlot

record 'pos Manager =
  games :: "string \<rightharpoonup> 'pos GameState"
  playerToGame :: "string \<rightharpoonup> string"
  turnTimers :: "string \<rightharpoonup> nat"
  pauseTimers :: "string \<rightharpoonup> nat"
  disconnectTimers :: "string \<rightharpoonup> nat"
  scheduled :: "(nat \<times> nat \<times> TimerTask) list"
  nextHandle :: nat

record 'pos TimerFired =
  tf_manager :: "'pos Manager"
  tf_settlements :: "GameOverResult list"
  tf_callbacks :: "Callback list"

definition TURN_TIMEOUT_MS :: nat where
  "TURN_TIMEOUT_MS = 300000"

definition PAUSE_TIMEOUT_MS :: nat where
  "PAUSE_TIMEOUT_MS = 60000"

definition RECONNECT_GRACE_MS :: nat where
  "RECONNECT_GRACE_MS = 120000"

definition newManager :: "'pos Manager" where
  "newManager = \<lparr>games = Map.empty, playerToGame = Map.empty, turnTimers = Map.empty,
     pauseTimers = Map.empty, disconnectTimers = Map.empty, scheduled = [], nextHandle = 0\<rparr>"

definition setTimeout :: "'pos Manager \<Rightarrow> TimerTask \<Rightarrow> nat \<Rightarrow> 'pos Manager \<times> nat" where
  "setTimeout m task ms =
     (m\<lparr>scheduled := scheduled m @ [(nextHandle m, ms, task)], nextHandle := Suc (nextHandle m)\<rparr>,
      nextHandle m)"

definition clearTimeout :: "'pos Manager \<Rightarrow> nat \<Rightarrow> 'pos Manager" where
  "clearTimeout m h = m\<lparr>scheduled := filter (\<lambda>e. fst e \<noteq> h) (scheduled m)\<rparr>"

definition clearTurnTimer :: "'pos Manager \<Rightarrow> string \<Rightarrow> 'pos Manager" where
  "clearTurnTimer m gameId =
     (case turnTimers m gameId of
        None \<Rightarrow> m
      | Some t \<Rightarrow> (clearTimeout m t)\<lparr>turnTimers := (turnTimers m)(gameId := None)\<rparr>)"

definition clearPauseTimer :: "'pos Manager \<Rightarrow> string \<Rightarrow> 'pos Manager" where
  "clearPauseTimer m gameId =
     (case pauseTimers m gameId of
        None \<Rightarrow> m
      | Some t \<Rightarrow> (clearTimeout m t)\<lparr>pauseTimers := (pauseTimers m)(gameId := None)\<rparr>)"

fun slotName :: "PlayerSlot \<Rightarrow> string" where
  "slotName White = ''white''"
| "slotName Black = ''black''"

definition timerKey :: "string \<Rightarrow> PlayerSlot \<Rightarrow> string" where
  "timerKey gameId slot = gameId @ '':'' @ slotName slot"

definition clearDisconnectTimer :: "'pos Manager \<Rightarrow> string \<Rightarrow> PlayerSlot \<Rightarrow> 'pos Manager" where
  "clearDisconnectTimer m gameId slot =
     (let key = timerKey gameId slot
      in case disconnectTimers m key of
           None \<Rightarrow> m
         | Some t \<Rightarrow> (clearTimeout m t)\<lparr>disconnectTimers := (disconnectTimers m)(key := None)\<rparr>)"

definition startTurnTimer :: "'pos Manager \<Rightarrow> 'pos GameState \<Rightarrow> 'pos Manager" where
  "startTurnTimer m game =
     (let m1 = clearTurnTimer m (gid game);
          (m2, timer) = setTimeout m1 (TurnTimeout (gid game)) TURN_TIMEOUT_MS
      in m2\<lparr>turnTimers := (turnTimers m2)(gid game \<mapsto> timer)\<rparr>)"

subsection \<open>Helpers\<close>

definition getGame :: "'pos Manager \<Rightarrow> string \<Rightarrow> 'pos GameState option" where
  "getGame m i = games m i"

text \<open>\<open>id ? this.games.get(id) : undefined\<close>: a missing id and the empty string are falsy.\<close>

definition getGameBySocket :: "'pos Manager \<Rightarrow> string \<Rightarrow> 'pos GameState option" where
  "getGameBySocket m sid =
     (case playerToGame m sid of
        None \<Rightarrow> None
      | Some i \<Rightarrow> if i = [] then None else games m i)"

definition getSlot :: "'pos GameState \<Rightarrow> string \<Rightarrow> PlayerSlot option" where
  "getSlot g sid =
     (if socketId (white g) = sid then Some White
      else if socketId (black g) = sid then Some Black
      else None)"

definition opponentSlot :: "PlayerSlot \<Rightarrow> PlayerSlot" where
  "opponentSlot s = (if s = White then Black else White)"

text \<open>\<open>game[slot]\<close>, read and written.\<close>

fun player :: "'pos GameState \<Rightarrow> PlayerSlot \<Rightarrow> PlayerState" where
  "player g White = white g"
| "player g Black = black g"

fun setPlayer :: "'pos GameState \<Rightarrow> PlayerSlot \<Rightarrow> PlayerState \<Rightarrow> 'pos GameState" where
  "setPlayer g White p = g\<lparr>white := p\<rparr>"
| "setPlayer g Black p = g\<lparr>black := p\<rparr>"

text \<open>
  A game object mutated through a reference is the object the registry holds: the
  mutated object is stored back under the key it was looked up with.
\<close>

definition storeGame :: "'pos Manager \<Rightarrow> string \<Rightarrow> 'pos GameState \<Rightarrow> 'pos Manager" where
  "storeGame m key g = m\<lparr>games := (games m)(key \<mapsto> g)\<rparr>"

definition currentTurn :: "'pos ChessEngine \<Rightarrow> 'pos GameState \<Rightarrow> PlayerSlot" where
  "currentTurn eng g = (if chess_turn eng (chess g) = Color_w then White else Black)"

section \<open>ChessGameManager.ts: operations\<close>

text \<open>
  \<open>Date.now()\<close> is the argument \<open>now\<close>.  A method that mutates a game object it
  received returns the mutated object next to the manager; the caller that looked
  the object up stores it back (\<open>storeGame\<close>).
\<close>

definition gameRefBySocket :: "'pos Manager \<Rightarrow> string \<Rightarrow> (string \<times> 'pos GameState) option" where
  "gameRefBySocket m sid =
     (case playerToGame m sid of
        None \<Rightarrow> None
      | Some i \<Rightarrow> if i = [] then None
                 else (case games m i of None \<Rightarrow> None | Some g \<Rightarrow> Some (i, g)))"

definition mkPlayer :: "string \<Rightarrow> string \<Rightarrow> string \<Rightarrow> PlayerSlot \<Rightarrow> PlayerState" where
  "mkPlayer sid addr nm c =
     \<lparr>socketId = sid, address = addr, username = nm, color = c,
      wagerPaid = False, moveCount = 0, connected = True, disconnectedAt = None\<rparr>"

text \<open>
  \<open>createGame\<close> awaits the price service, draws a uuid and flips a coin: the three
  results are the arguments \<open>bsvPrice\<close>, \<open>gameId\<close> and \<open>p1IsWhite\<close>.
\<close>

definition createGame ::
  "'pos ChessEngine \<Rightarrow> 'pos Manager \<Rightarrow> string \<Rightarrow> string \<Rightarrow> string \<Rightarrow> string \<Rightarrow> string \<Rightarrow> string
     \<Rightarrow> int \<Rightarrow> rat \<Rightarrow> string \<Rightarrow> bool \<Rightarrow> nat \<Rightarrow> Error + ('pos Manager \<times> 'pos GameState option)" where
  "createGame eng m p1Sid p1Addr p1Name p2Sid p2Addr p2Name tierValue bsvPrice gameId p1IsWhite now =
     (case getTierByValue tierValue of
        None \<Rightarrow> Inr (m, None)
      | Some t \<Rightarrow>
         (case centsToSats (of_int (depositCents t)) bsvPrice of
            Inl e \<Rightarrow> Inl e
          | Inr deposit \<Rightarrow>
             (case centsToSats (of_int (baseCents t)) bsvPrice of
                Inl e \<Rightarrow> Inl e
              | Inr base \<Rightarrow>
                 (let game =
                    \<lparr>gid = gameId, phase = Awaiting_wagers, gtier = t,
                     depositSats = deposit, baseSats = base, bsvPriceAtStart = bsvPrice,
                     chess = chess_new eng,
                     white = mkPlayer (if p1IsWhite then p1Sid else p2Sid)
                               (if p1IsWhite then p1Addr else p2Addr)
                               (if p1IsWhite then p1Name else p2Name) White,
                     black = mkPlayer (if p1IsWhite then p2Sid else p1Sid)
                               (if p1IsWhite then p2Addr else p1Addr)
                               (if p1IsWhite then p2Name else p1Name) Black,
                     pot = 0, pendingPayment = None, capturePayments = [],
                     pausedFor = None, pausedAt = None, pauseReason = None,
                     createdAt = now, startedAt = None, endedAt = None,
                     endReason = None, winner = None, turnStartedAt = 0, moveHistory = []\<rparr>
                  in Inr (m\<lparr>games := (games m)(gameId \<mapsto> game),
                             playerToGame := ((playerToGame m)(p1Sid \<mapsto> gameId))(p2Sid \<mapsto> gameId)\<rparr>,
                          Some game)))))"

definition requestWagerPayment ::
  "'pos Manager \<Rightarrow> string \<Rightarrow> PlayerSlot \<Rightarrow> string \<Rightarrow> 'pos Manager \<times> WagerRequest option" where
  "requestWagerPayment m gameId slot escrowAddress =
     (case games m gameId of
        None \<Rightarrow> (m, None)
      | Some game \<Rightarrow>
          if phase game \<noteq> Awaiting_wagers then (m, None)
          else if wagerPaid (player game slot) then (m, None)
          else (storeGame m gameId
                  (game\<lparr>pendingPayment :=
                     Some \<lparr>pp_fromSlot = slot, pp_amount = depositSats game,
                           pp_toAddress = escrowAddress\<rparr>\<rparr>),
                Some \<lparr>wr_amount = depositSats game, wr_toAddress = escrowAddress\<rparr>))"

definition confirmWagerPayment ::
  "'pos Manager \<Rightarrow> string \<Rightarrow> PlayerSlot \<Rightarrow> string \<Rightarrow> nat \<Rightarrow> 'pos Manager \<times> WagerConfirm" where
  "confirmWagerPayment m gameId slot tx now =
     (case games m gameId of
        None \<Rightarrow> (m, \<lparr>wc_success = False, bothPaid = False, wc_error = Some ''Game not found''\<rparr>)
      | Some game \<Rightarrow>
         (let g1 = setPlayer game slot ((player game slot)\<lparr>wagerPaid := True\<rparr>);
              g2 = g1\<lparr>pot := pot g1 + depositSats g1\<rparr>;
              g3 = g2\<lparr>pendingPayment := None\<rparr>;
              both = (wagerPaid (white g3) \<and> wagerPaid (black g3))
          in if both
             then (let g4 = g3\<lparr>phase := Playing, startedAt := Some now, turnStartedAt := now\<rparr>;
                       m1 = startTurnTimer m g4
                   in (storeGame m1 gameId g4,
                       \<lparr>wc_success = True, bothPaid = both, wc_error = None\<rparr>))
             else (storeGame m gameId g3,
                   \<lparr>wc_success = True, bothPaid = both, wc_error = None\<rparr>)))"

subsection \<open>Settlement\<close>

definition clearGameTimers :: "'pos Manager \<Rightarrow> string \<Rightarrow> 'pos Manager" where
  "clearGameTimers m gameId =
     clearDisconnectTimer
       (clearDisconnectTimer (clearPauseTimer (clearTurnTimer m gameId) gameId) gameId White)
       gameId Black"

definition endGame ::
  "'pos Manager \<Rightarrow> 'pos GameState \<Rightarrow> PlayerSlot \<Rightarrow> GameEndReason \<Rightarrow> nat
     \<Rightarrow> 'pos Manager \<times> 'pos GameState \<times> GameOverResult" where
  "endGame m game winnerSlot reason now =
     (let g1 = game\<lparr>phase := Gameover, endedAt := Some now, endReason := Some reason,
                    winner := Some winnerSlot, pendingPayment := None\<rparr>;
          m1 = clearGameTimers m (gid g1);
          loser = opponentSlot winnerSlot;
          ownDeposit = depositSats g1;
          loserDeposit = depositSats g1;
          depositPlatformCut =
            Math_ceil (js_div (js_mul (of_int loserDeposit) (of_int PLATFORM_CUT_PERCENT)) 100);
          depositToWinner = loserDeposit - depositPlatformCut;
          capturePlatformCut = foldl (\<lambda>sum cp. sum + platformSats cp) 0 (capturePayments g1);
          totalPlatformCut = depositPlatformCut + capturePlatformCut;
          captureEarnings =
            foldl (\<lambda>sum cp. sum + capturerSats cp) 0
              (filter (\<lambda>cp. toSlot cp = winnerSlot) (capturePayments g1));
          payout = ownDeposit + depositToWinner + captureEarnings
      in (m1, g1,
          \<lparr>res_winner = Some winnerSlot, res_loser = Some loser, res_reason = reason,
           res_pot = pot g1 + depositSats g1 * 2,
           winnerPayout = payout, loserPayout = 0, platformCut = totalPlatformCut,
           whiteAddress = address (white g1), blackAddress = address (black g1)\<rparr>))"

definition endGameDraw ::
  "'pos Manager \<Rightarrow> 'pos GameState \<Rightarrow> GameEndReason \<Rightarrow> nat
     \<Rightarrow> 'pos Manager \<times> 'pos GameState \<times> GameOverResult" where
  "endGameDraw m game reason now =
     (let g1 = game\<lparr>phase := Gameover, endedAt := Some now, endReason := Some reason,
                    winner := None, pendingPayment := None\<rparr>;
          m1 = clearGameTimers m (gid g1);
          depositReturn =
            Math_floor (js_mul (of_int (depositSats g1))
                          (js_sub 1 (js_div (of_int PLATFORM_CUT_PERCENT) 100)));
          cut = (depositSats g1 - depositReturn) * 2
      in (m1, g1,
          \<lparr>res_winner = None, res_loser = None, res_reason = reason,
           res_pot = pot g1 + depositSats g1 * 2,
           winnerPayout = depositReturn, loserPayout = depositReturn, platformCut = cut,
           whiteAddress = address (white g1), blackAddress = address (black g1)\<rparr>))"

subsection \<open>Moves\<close>

definition failMove :: "string \<Rightarrow> MoveResult" where
  "failMove e =
     \<lparr>success = False, error = Some e, san = None, fen = None, move = None,
      capturePayment = None, isCheck = None, isCheckmate = None, isStalemate = None,
      isDraw = None, drawReason = None, gameOver = None, gameOverResult = None\<rparr>"

definition okMove ::
  "MoveRecord \<Rightarrow> string \<Rightarrow> string \<Rightarrow> CaptureInfo option \<Rightarrow> MoveResult" where
  "okMove moveRecord s f cp =
     \<lparr>success = True, error = None, san = Some s, fen = Some f, move = Some moveRecord,
      capturePayment = cp, isCheck = None, isCheckmate = None, isStalemate = None,
      isDraw = None, drawReason = None, gameOver = None, gameOverResult = None\<rparr>"

text \<open>The body of \<open>if (move.captured) { ... }\<close>.\<close>

definition recordCapture ::
  "'pos GameState \<Rightarrow> PlayerSlot \<Rightarrow> ChessPieceType \<Rightarrow> 'pos GameState \<times> CaptureInfo" where
  "recordCapture game slot capturedPiece =
     (let victim = opponentSlot slot;
          capturer = slot;
          amount =
            Math_ceil (js_mul (of_int (baseSats game))
                         (js_div (of_int (PIECE_CAPTURE_PERCENT capturedPiece)) 100));
          platform =
            Math_ceil (js_div (js_mul (of_int amount) (of_int PLATFORM_CUT_PERCENT)) 100);
          capturerPart = amount - platform;
          g1 = game\<lparr>capturePayments := capturePayments game @
                  [\<lparr>fromSlot = victim, toSlot = capturer, piece = capturedPiece,
                    amountSats = amount, capturerSats = capturerPart,
                    platformSats = platform, paid = False, txid = None\<rparr>]\<rparr>;
          g2 = g1\<lparr>pot := pot g1 + amount\<rparr>
      in (g2,
          \<lparr>victimSlot = victim, capturerSlot = capturer, ci_piece = capturedPiece,
           ci_amountSats = amount, ci_capturerSats = capturerPart,
           ci_platformSats = platform\<rparr>))"

text \<open>The game-over checks and the restart of the turn clock, after the move is recorded.\<close>

definition finishMove ::
  "'pos ChessEngine \<Rightarrow> 'pos Manager \<Rightarrow> string \<Rightarrow> 'pos GameState \<Rightarrow> PlayerSlot \<Rightarrow> MoveRecord
     \<Rightarrow> CaptureInfo option \<Rightarrow> nat \<Rightarrow> 'pos Manager \<times> MoveResult" where
  "finishMove eng m key game slot moveRecord cp now =
     (let base = okMove moveRecord (rec_san moveRecord) (chess_fen eng (chess game)) cp
      in if chess_isCheckmate eng (chess game)
         then (case endGame m game slot Checkmate now of (m1, g1, result) \<Rightarrow>
                 (storeGame m1 key g1,
                  base\<lparr>gameOver := Some True, gameOverResult := Some result,
                        isCheckmate := Some True\<rparr>))
         else if chess_isStalemate eng (chess game)
         then (case endGameDraw m game Stalemate now of (m1, g1, result) \<Rightarrow>
                 (storeGame m1 key g1,
                  base\<lparr>gameOver := Some True, gameOverResult := Some result,
                        isStalemate := Some True, isDraw := Some True\<rparr>))
         else if chess_isThreefoldRepetition eng (chess game)
         then (case endGameDraw m game Threefold_repetition now of (m1, g1, result) \<Rightarrow>
                 (storeGame m1 key g1,
                  base\<lparr>gameOver := Some True, gameOverResult := Some result,
                        isDraw := Some True, drawReason := Some ''threefold_repetition''\<rparr>))
         else if chess_isInsufficientMaterial eng (chess game)
         then (case endGameDraw m game Insufficient_material now of (m1, g1, result) \<Rightarrow>
                 (storeGame m1 key g1,
                  base\<lparr>gameOver := Some True, gameOverResult := Some result,
                        isDraw := Some True, drawReason := Some ''insufficient_material''\<rparr>))
         else if chess_isDraw eng (chess game)
         then (case endGameDraw m game Fifty_move_rule now of (m1, g1, result) \<Rightarrow>
                 (storeGame m1 key g1,
                  base\<lparr>gameOver := Some True, gameOverResult := Some result,
                        isDraw := Some True, drawReason := Some ''fifty_move_rule''\<rparr>))
         else (let g1 = game\<lparr>turnStartedAt := now\<rparr>;
                   m1 = startTurnTimer m g1
               in (storeGame m1 key g1,
                   base\<lparr>gameOver := Some False,
                         isCheck := Some (chess_isCheck eng (chess g1))\<rparr>)))"

text \<open>\<open>promotion || undefined\<close>: the empty string is passed on as no promotion.\<close>

definition attemptMove ::
  "'pos ChessEngine \<Rightarrow> 'pos Manager \<Rightarrow> string \<Rightarrow> string \<Rightarrow> string \<Rightarrow> string option \<Rightarrow> nat
     \<Rightarrow> 'pos Manager \<times> MoveResult" where
  "attemptMove eng m sid from to promotion now =
     (case gameRefBySocket m sid of
        None \<Rightarrow> (m, failMove ''Not in a game'')
      | Some (key, game) \<Rightarrow>
          if phase game \<noteq> Playing then (m, failMove ''Game not active'')
          else (case getSlot game sid of
                  None \<Rightarrow> (m, failMove ''Not a player'')
                | Some slot \<Rightarrow>
                    if slot \<noteq> currentTurn eng game then (m, failMove ''Not your turn'')
                    else (case chess_move eng (chess game) from to
                                 (if promotion = Some [] then None else promotion) of
                            None \<Rightarrow> (m, failMove ''Illegal move'')
                          | Some (mv, pos) \<Rightarrow>
                             (let g0 = game\<lparr>chess := pos\<rparr>;
                                  g1 = setPlayer g0 slot
                                         ((player g0 slot)\<lparr>moveCount := Suc (moveCount (player g0 slot))\<rparr>);
                                  moveRecord = \<lparr>rec_san = mv_san mv, rec_from = mv_from mv,
                                                rec_to = mv_to mv, rec_color = mv_color mv\<rparr>;
                                  g2 = g1\<lparr>moveHistory := moveHistory g1 @ [moveRecord]\<rparr>
                              in case mv_captured mv of
                                   None \<Rightarrow> finishMove eng m key g2 slot moveRecord None now
                                 | Some capturedPiece \<Rightarrow>
                                     (case recordCapture g2 slot capturedPiece of (g3, info) \<Rightarrow>
                                        finishMove eng m key g3 slot moveRecord (Some info) now)))))"

subsection \<open>Draw offers and resignation\<close>

definition offerDraw :: "'pos Manager \<Rightarrow> string \<Rightarrow> 'pos Manager \<times> DrawOffer" where
  "offerDraw m sid =
     (case getGameBySocket m sid of
        None \<Rightarrow> (m, \<lparr>od_success = False, opponentSocketId = None, od_error = Some ''Game not active''\<rparr>)
      | Some game \<Rightarrow>
          if phase game \<noteq> Playing
          then (m, \<lparr>od_success = False, opponentSocketId = None, od_error = Some ''Game not active''\<rparr>)
          else (case getSlot game sid of
                  None \<Rightarrow> (m, \<lparr>od_success = False, opponentSocketId = None,
                                od_error = Some ''Not a player''\<rparr>)
                | Some slot \<Rightarrow>
                    (m, \<lparr>od_success = True,
                         opponentSocketId = Some (socketId (player game (opponentSlot slot))),
                         od_error = None\<rparr>)))"

definition acceptDraw :: "'pos Manager \<Rightarrow> string \<Rightarrow> nat \<Rightarrow> 'pos Manager \<times> DrawAccept" where
  "acceptDraw m sid now =
     (case gameRefBySocket m sid of
        None \<Rightarrow> (m, \<lparr>ad_success = False, ad_result = None, ad_error = Some ''Game not active''\<rparr>)
      | Some (key, game) \<Rightarrow>
          if phase game \<noteq> Playing
          then (m, \<lparr>ad_success = False, ad_result = None, ad_error = Some ''Game not active''\<rparr>)
          else (case endGameDraw m game Draw_agreement now of (m1, g1, result) \<Rightarrow>
                  (storeGame m1 key g1,
                   \<lparr>ad_success = True, ad_result = Some result, ad_error = None\<rparr>)))"

definition resign ::
  "'pos Manager \<Rightarrow> string \<Rightarrow> nat \<Rightarrow> 'pos Manager \<times> (string \<times> GameOverResult) option" where
  "resign m sid now =
     (case gameRefBySocket m sid of
        None \<Rightarrow> (m, None)
      | Some (key, game) \<Rightarrow>
          if phase game = Gameover then (m, None)
          else (case getSlot game sid of
                  None \<Rightarrow> (m, None)
                | Some slot \<Rightarrow>
                    (case endGame m game (opponentSlot slot) Resignation now of (m1, g1, result) \<Rightarrow>
                       (storeGame m1 key g1, Some (gid g1, result)))))"

subsection \<open>Pause, disconnect, reconnect\<close>

definition pauseForFunds ::
  "'pos Manager \<Rightarrow> 'pos GameState \<Rightarrow> PlayerSlot \<Rightarrow> int \<Rightarrow> string \<Rightarrow> nat
     \<Rightarrow> 'pos Manager \<times> 'pos GameState \<times> Callback list" where
  "pauseForFunds m game forSlot amountNeeded reason now =
     (let g1 = game\<lparr>phase := Paused, pausedFor := Some forSlot, pausedAt := Some now,
                    pauseReason := Some reason\<rparr>;
          m1 = clearTurnTimer m (gid g1);
          (m2, timer) = setTimeout m1 (PauseTimeout (gid g1) forSlot) PAUSE_TIMEOUT_MS;
          m3 = m2\<lparr>pauseTimers := (pauseTimers m2)(gid g1 \<mapsto> timer)\<rparr>
      in (m3, g1, [OnFundsNeeded (gid g1) forSlot amountNeeded]))"

definition handleDisconnect ::
  "'pos Manager \<Rightarrow> string \<Rightarrow> nat \<Rightarrow> 'pos Manager \<times> DisconnectResult option" where
  "handleDisconnect m sid now =
     (case gameRefBySocket m sid of
        None \<Rightarrow> (m, None)
      | Some (key, game) \<Rightarrow>
          if phase game = Gameover then (m, None)
          else (case getSlot game sid of
                  None \<Rightarrow> (m, None)
                | Some slot \<Rightarrow>
                   (let g1 = setPlayer game slot
                               ((player game slot)\<lparr>connected := False, disconnectedAt := Some now\<rparr>);
                        opponent = opponentSlot slot;
                        m1 = clearTurnTimer m (gid g1)
                    in if phase g1 = Awaiting_wagers
                       then (let g2 = g1\<lparr>phase := Gameover, endedAt := Some now,
                                          endReason := Some Disconnect\<rparr>;
                                 m2 = clearDisconnectTimer
                                        (clearDisconnectTimer m1 (gid g2) White) (gid g2) Black;
                                 refund =
                                   (if wagerPaid (player g2 opponent)
                                    then Some \<lparr>refund_address = address (player g2 opponent),
                                               refund_amount = depositSats g2\<rparr>
                                    else None);
                                 result =
                                   \<lparr>res_winner = None, res_loser = None, res_reason = Disconnect,
                                    res_pot = 0, winnerPayout = 0, loserPayout = 0, platformCut = 0,
                                    whiteAddress = address (white g2),
                                    blackAddress = address (black g2)\<rparr>
                             in (storeGame m2 key g2,
                                 Some \<lparr>dc_gameId = gid g2, dc_slot = slot, graceStarted = False,
                                       immediateResult = Some result, wagerRefund = refund\<rparr>))
                       else (let k = timerKey (gid g1) slot;
                                 m2 = clearDisconnectTimer m1 (gid g1) slot;
                                 (m3, timer) =
                                   setTimeout m2 (DisconnectTimeout (gid g1) slot) RECONNECT_GRACE_MS;
                                 m4 = m3\<lparr>disconnectTimers := (disconnectTimers m3)(k \<mapsto> timer)\<rparr>
                             in (storeGame m4 key g1,
                                 Some \<lparr>dc_gameId = gid g1, dc_slot = slot, graceStarted = True,
                                       immediateResult = None, wagerRefund = None\<rparr>)))))"

definition handleReconnect ::
  "'pos Manager \<Rightarrow> string \<Rightarrow> string \<Rightarrow> string \<Rightarrow> nat \<Rightarrow> 'pos Manager \<times> 'pos ReconnectResult" where
  "handleReconnect m sid gameId addr now =
     (case games m gameId of
        None \<Rightarrow> (m, \<lparr>rc_success = False, rc_game = None, rc_slot = None,
                     rc_error = Some ''Game not found''\<rparr>)
      | Some game \<Rightarrow>
          if phase game = Gameover
          then (m, \<lparr>rc_success = False, rc_game = None, rc_slot = None,
                    rc_error = Some ''Game already ended''\<rparr>)
          else (case (if address (white game) = addr then Some White
                      else if address (black game) = addr then Some Black else None) of
                  None \<Rightarrow> (m, \<lparr>rc_success = False, rc_game = None, rc_slot = None,
                               rc_error = Some ''Not in this game''\<rparr>)
                | Some slot \<Rightarrow>
                   (let m1 = clearDisconnectTimer m gameId slot;
                        g1 = setPlayer game slot
                               ((player game slot)\<lparr>connected := True, disconnectedAt := None,
                                                    socketId := sid\<rparr>);
                        m2 = m1\<lparr>playerToGame := (playerToGame m1)(sid \<mapsto> gameId)\<rparr>
                    in if phase g1 = Playing
                       then (let g2 = g1\<lparr>turnStartedAt := now\<rparr>;
                                 m3 = startTurnTimer m2 g2
                             in (storeGame m3 gameId g2,
                                 \<lparr>rc_success = True, rc_game = Some g2, rc_slot = Some slot,
                                  rc_error = None\<rparr>))
                       else (storeGame m2 gameId g1,
                             \<lparr>rc_success = True, rc_game = Some g1, rc_slot = Some slot,
                              rc_error = None\<rparr>))))"

definition removeGame :: "'pos Manager \<Rightarrow> string \<Rightarrow> 'pos Manager" where
  "removeGame m i =
     (case games m i of
        None \<Rightarrow> m
      | Some g \<Rightarrow>
         (let m1 = (if playerToGame m (socketId (white g)) = Some i
                    then m\<lparr>playerToGame := (playerToGame m)(socketId (white g) := None)\<rparr> else m);
              m2 = (if playerToGame m1 (socketId (black g)) = Some i
                    then m1\<lparr>playerToGame := (playerToGame m1)(socketId (black g) := None)\<rparr> else m1);
              m3 = clearGameTimers m2 i
          in m3\<lparr>games := (games m3)(i := None)\<rparr>))"

subsection \<open>The three timer closures\<close>

text \<open>
  Each function is the body of the closure handed to \<open>setTimeout\<close>, run on the
  registered object with the captured id.  The turn and pause closures of the source
  hold the game object itself; here they reach it through the registry, so they
  describe the source for a game that is still registered.  For an id that has left
  the registry the functions leave the manager as it is.
\<close>

definition idle :: "'pos Manager \<Rightarrow> 'pos TimerFired" where
  "idle m = \<lparr>tf_manager = m, tf_settlements = [], tf_callbacks = []\<rparr>"

definition turnTimerExpired ::
  "'pos ChessEngine \<Rightarrow> 'pos Manager \<Rightarrow> string \<Rightarrow> nat \<Rightarrow> 'pos TimerFired" where
  "turnTimerExpired eng m gameId now =
     (case games m gameId of
        None \<Rightarrow> idle m
      | Some game \<Rightarrow>
          if phase game \<noteq> Playing then idle m
          else (let turn = currentTurn eng game;
                    winnerSlot = opponentSlot turn
                in case endGame m game winnerSlot Timeout now of (m1, g1, result) \<Rightarrow>
                     \<lparr>tf_manager = storeGame m1 gameId g1, tf_settlements = [result],
                      tf_callbacks = [OnTurnTimeout (gid g1) winnerSlot turn]\<rparr>))"

definition pauseTimerExpired ::
  "'pos Manager \<Rightarrow> string \<Rightarrow> PlayerSlot \<Rightarrow> nat \<Rightarrow> 'pos TimerFired" where
  "pauseTimerExpired m gameId forSlot now =
     (case games m gameId of
        None \<Rightarrow> idle m
      | Some game \<Rightarrow>
          if phase game \<noteq> Paused then idle m
          else (let winnerSlot = opponentSlot forSlot
                in case endGame m game winnerSlot Insufficient_funds now of (m1, g1, result) \<Rightarrow>
                     \<lparr>tf_manager = storeGame m1 gameId g1, tf_settlements = [result],
                      tf_callbacks = [OnPauseTimeout (gid g1) winnerSlot forSlot]\<rparr>))"

definition disconnectTimerExpired ::
  "'pos Manager \<Rightarrow> string \<Rightarrow> PlayerSlot \<Rightarrow> nat \<Rightarrow> 'pos TimerFired" where
  "disconnectTimerExpired m gameId slot now =
     (case games m gameId of
        None \<Rightarrow> idle m
      | Some g \<Rightarrow>
          if phase g = Gameover then idle m
          else if \<not> connected (player g slot)
          then (let opponent = opponentSlot slot
                in case endGame m g opponent Disconnect now of (m1, g1, result) \<Rightarrow>
                     \<lparr>tf_manager = storeGame m1 gameId g1, tf_settlements = [result],
                      tf_callbacks = [OnDisconnectTimeout gameId opponent slot]\<rparr>)
          else idle m)"

definition runTask ::
  "'pos ChessEngine \<Rightarrow> 'pos Manager \<Rightarrow> TimerTask \<Rightarrow> nat \<Rightarrow> 'pos TimerFired" where
  "runTask eng m task now =
     (case task of
        TurnTimeout i \<Rightarrow> turnTimerExpired eng m i now
      | PauseTimeout i forSlot \<Rightarrow> pauseTimerExpired m i forSlot now
      | DisconnectTimeout i slot \<Rightarrow> disconnectTimerExpired m i slot now)"

text \<open>The runtime fires a pending timeout: it leaves the pending list, then its closure runs.\<close>

definition fireTimer ::
  "'pos ChessEngine \<Rightarrow> 'pos Manager \<Rightarrow> nat \<Rightarrow> nat \<Rightarrow> 'pos TimerFired" where
  "fireTimer eng m h now =
     (case find (\<lambda>e. fst e = h) (scheduled m) of
        None \<Rightarrow> idle m
      | Some e \<Rightarrow> runTask eng (clearTimeout m h) (snd (snd e)) now)"

text \<open>The pending timeouts of one family for one key.\<close>

definition activeTurnTimers :: "'pos Manager \<Rightarrow> string \<Rightarrow> nat list" where
  "activeTurnTimers m gameId =
     map fst (filter (\<lambda>e. snd (snd e) = TurnTimeout gameId) (scheduled m))"

definition activePauseTimers :: "'pos Manager \<Rightarrow> string \<Rightarrow> nat list" where
  "activePauseTimers m gameId =
     map fst (filter (\<lambda>e. case snd (snd e) of PauseTimeout i s \<Rightarrow> i = gameId | _ \<Rightarrow> False)
                (scheduled m))"

definition activeDisconnectTimers :: "'pos Manager \<Rightarrow> string \<Rightarrow> PlayerSlot \<Rightarrow> nat list" where
  "activeDisconnectTimers m gameId slot =
     map fst (filter (\<lambda>e. snd (snd e) = DisconnectTimeout gameId slot) (scheduled m))"

section \<open>Sample data\<close>

text \<open>
  A stand-in for the position engine: a position is the number of plies played,
  White moves on even plies, every move to another square is legal, and a move to
  \<open>d5\<close> captures a pawn.  No position is terminal.
\<close>

definition plyEngine :: "nat ChessEngine" where
  "plyEngine =
     \<lparr>chess_new = 0,
      chess_turn = (\<lambda>p. if even p then Color_w else Color_b),
      chess_move = (\<lambda>p f t pr.
         if f = t then None
         else Some (\<lparr>mv_san = f @ t, mv_from = f, mv_to = t,
                     mv_color = (if even p then Color_w else Color_b),
                     mv_captured = (if t = ''d5'' then Some Pawn else None)\<rparr>, Suc p)),
      chess_isCheckmate = (\<lambda>p. False),
      chess_isStalemate = (\<lambda>p. False),
      chess_isThreefoldRepetition = (\<lambda>p. False),
      chess_isInsufficientMaterial = (\<lambda>p. False),
      chess_isDraw = (\<lambda>p. False),
      chess_isCheck = (\<lambda>p. False),
      chess_fen = (\<lambda>p. [])\<rparr>"

text \<open>
  The Dollar tier at a price of 500 USD: \<open>createGame\<close> computes a deposit and a base
  of 200000 satoshis.  \<open>sampleGame d b\<close> is the freshly created game with deposit
  \<open>d\<close> and base \<open>b\<close>.
\<close>

definition sampleGame :: "int \<Rightarrow> int \<Rightarrow> nat GameState" where
  "sampleGame d b =
     \<lparr>gid = ''g1'', phase = Awaiting_wagers,
      gtier = \<lparr>tier = 100, name = ''Dollar'', depositCents = 100, baseCents = 100\<rparr>,
      depositSats = d, baseSats = b, bsvPriceAtStart = 500, chess = 0,
      white = mkPlayer ''s1'' ''a1'' ''ann'' White,
      black = mkPlayer ''s2'' ''a2'' ''bob'' Black,
      pot = 0, pendingPayment = None, capturePayments = [],
      pausedFor = None, pausedAt = None, pauseReason = None,
      createdAt = 0, startedAt = None, endedAt = None,
      endReason = None, winner = None, turnStartedAt = 0, moveHistory = []\<rparr>"

definition sampleManager :: "int \<Rightarrow> int \<Rightarrow> nat Manager" where
  "sampleManager d b =
     newManager\<lparr>games := [''g1'' \<mapsto> sampleGame d b],
                playerToGame := [''s1'' \<mapsto> ''g1'', ''s2'' \<mapsto> ''g1'']\<rparr>"

text \<open>Both seats have confirmed their deposit: the game is in play.\<close>

definition startedManager :: "int \<Rightarrow> int \<Rightarrow> nat Manager" where
  "startedManager d b =
     fst (confirmWagerPayment
            (fst (confirmWagerPayment (sampleManager d b) ''g1'' White ''tx1'' 1))
            ''g1'' Black ''tx2'' 2)"

definition paidGame :: "int \<Rightarrow> int \<Rightarrow> nat GameState" where
  "paidGame d b =
     (sampleGame d b)
       \<lparr>phase := Playing,
        white := (mkPlayer ''s1'' ''a1'' ''ann'' White)\<lparr>wagerPaid := True\<rparr>,
        black := (mkPlayer ''s2'' ''a2'' ''bob'' Black)\<lparr>wagerPaid := True\<rparr>,
        pot := d + d, startedAt := Some 2, turnStartedAt := 2\<rparr>"

text \<open>
  The game at deposit and base 200000 after White took a pawn on d5 and Black took
  back: 20 percent of the base is 40000, of which 3 percent, 1200, is the
  platform's.  \<open>tradedGame\<close> is the game object \<open>tradedManager\<close> holds.
\<close>

definition tradedManager :: "nat Manager" where
  "tradedManager =
     fst (attemptMove plyEngine
            (fst (attemptMove plyEngine (startedManager 200000 200000) ''s1'' ''e4'' ''d5'' None 3))
            ''s2'' ''c6'' ''d5'' None 4)"

definition tradedGame :: "nat GameState" where
  "tradedGame =
     (paidGame 200000 200000)
       \<lparr>chess := 2,
        white := (mkPlayer ''s1'' ''a1'' ''ann'' White)\<lparr>wagerPaid := True, moveCount := 1\<rparr>,
        black := (mkPlayer ''s2'' ''a2'' ''bob'' Black)\<lparr>wagerPaid := True, moveCount := 1\<rparr>,
        capturePayments :=
          [\<lparr>fromSlot = Black, toSlot = White, piece = Pawn, amountSats = 40000,
            capturerSats = 38800, platformSats = 1200, paid = False, txid = None\<rparr>,
           \<lparr>fromSlot = White, toSlot = Black, piece = Pawn, amountSats = 40000,
            capturerSats = 38800, platformSats = 1200, paid = False, txid = None\<rparr>],
        pot := 400000 + 40000 + 40000,
        turnStartedAt := 4,
        moveHistory :=
          [\<lparr>rec_san = ''e4d5'', rec_from = ''e4'', rec_to = ''d5'', rec_color = Color_w\<rparr>,
           \<lparr>rec_san = ''c6d5'', rec_from = ''c6'', rec_to = ''d5'', rec_color = Color_b\<rparr>]\<rparr>"

text \<open>
  White has confirmed a deposit, then Black's connection drops while the game still
  awaits Black's deposit: the game is over.
\<close>

definition cancelledManager :: "int \<Rightarrow> int \<Rightarrow> nat Manager" where
  "cancelledManager d b =
     fst (handleDisconnect
            (fst (confirmWagerPayment (sampleManager d b) ''g1'' White ''tx1'' 1)) ''s2'' 2)"

text \<open>A game in play is paused for White's funds; then it is paused once more.\<close>

definition pausedOnce :: "int \<Rightarrow> int \<Rightarrow> nat Manager \<times> nat GameState" where
  "pausedOnce d b =
     (case pauseForFunds (startedManager d b) (paidGame d b) White 1000 ''funds'' 3 of
        (m1, g1, cbs) \<Rightarrow> (storeGame m1 ''g1'' g1, g1))"

definition pausedTwice :: "int \<Rightarrow> int \<Rightarrow> nat Manager" where
  "pausedTwice d b =
     (case pausedOnce d b of
        (m1, g1) \<Rightarrow>
          (case pauseForFunds m1 g1 White 1000 ''funds'' 4 of
             (m2, g2, cbs) \<Rightarrow> storeGame m2 ''g1'' g2))"

section \<open>The balance requirement as the specification words it\<close>





section \<open>Rounding to binary64: the facts used below\<close>

lemma bitlen_rat_bounds:
  assumes "0 < p"
  shows "(2::rat) powi (bitlen p - 1) \<le> of_int p" and "of_int p < (2::rat) powi (bitlen p)"
proof -
  from bitlen_bounds[OF assms] have lo: "2 ^ nat (bitlen p - 1) \<le> p" and hi: "p < 2 ^ nat (bitlen p)"
    by auto
  have ge1: "1 \<le> bitlen p" using assms by (simp add: bitlen_alt_def)
  have "(of_int (2 ^ nat (bitlen p - 1)) :: rat) \<le> of_int p" using lo by (simp only: of_int_le_iff)
  then show "(2::rat) powi (bitlen p - 1) \<le> of_int p"
    using ge1 by (simp add: power_int_nonneg_exp)
  have "(of_int p :: rat) < of_int (2 ^ nat (bitlen p))" using hi by (simp only: of_int_less_iff)
  then show "of_int p < (2::rat) powi (bitlen p)"
    using ge1 by (simp add: power_int_nonneg_exp)
qed

lemma binade_bounds:
  assumes "0 < x"
  shows "2 powi binade x \<le> x" and "x < 2 powi (binade x + 1)"
proof -
  obtain p q where pq: "quotient_of x = (p, q)" by (cases "quotient_of x")
  have q: "0 < q" using pq by (rule quotient_of_denom_pos)
  have x: "x = of_int p / of_int q" using pq by (rule quotient_of_div)
  have p: "0 < p" using assms q x by (simp add: zero_less_divide_iff)
  define k where "k = bitlen p - bitlen q"
  have qr: "(0::rat) < of_int q" using q by simp
  have "x < 2 powi bitlen p / of_int q"
    unfolding x using bitlen_rat_bounds(2)[OF p] qr by (simp add: divide_strict_right_mono)
  also have "\<dots> \<le> 2 powi bitlen p / 2 powi (bitlen q - 1)"
    using bitlen_rat_bounds(1)[OF q] by (simp add: frac_le)
  also have "\<dots> = 2 powi (k + 1)"
    unfolding k_def by (simp add: power_int_diff[symmetric] algebra_simps)
  finally have hi: "x < 2 powi (k + 1)" .
  have "2 powi (k - 1) = 2 powi (bitlen p - 1) / (2::rat) powi bitlen q"
    unfolding k_def by (simp add: power_int_diff[symmetric] algebra_simps)
  also have "\<dots> \<le> of_int p / 2 powi bitlen q"
    using bitlen_rat_bounds(1)[OF p] by (simp add: divide_right_mono)
  also have "\<dots> \<le> x"
    unfolding x using bitlen_rat_bounds(2)[OF q] p qr by (simp add: frac_le)
  finally have lo: "2 powi (k - 1) \<le> x" .
  have b: "binade x = (if 2 powi k \<le> x then k else k - 1)"
    by (simp add: binade_def pq k_def Let_def)
  show "2 powi binade x \<le> x" using lo b by auto
  show "x < 2 powi (binade x + 1)" using hi b by (auto simp: not_le)
qed

lemma binade_unique:
  assumes "2 powi e \<le> x" and "x < 2 powi (e + 1)"
  shows "binade x = e"
proof -
  have "(0::rat) < 2 powi e" by simp
  then have x: "0 < x" using assms(1) by (rule less_le_trans)
  note b = binade_bounds[OF x]
  have 1: "\<not> binade x + 1 \<le> e"
  proof
    assume "binade x + 1 \<le> e"
    then have "(2::rat) powi (binade x + 1) \<le> 2 powi e" by (simp add: power_int_increasing)
    with assms(1) b(2) show False by simp
  qed
  have 2: "\<not> e + 1 \<le> binade x"
  proof
    assume "e + 1 \<le> binade x"
    then have "(2::rat) powi (e + 1) \<le> 2 powi binade x" by (simp add: power_int_increasing)
    with assms(2) b(1) show False by simp
  qed
  from 1 2 show ?thesis by simp
qed

lemma rne_near:
  assumes "\<bar>t - of_int k\<bar> < 1 / 2"
  shows "rne t = k"
proof -
  have "of_int k - 1 / 2 < t" "t < of_int k + 1 / 2" using assms by linarith+
  then consider "\<lfloor>t\<rfloor> = k" "t - of_int k < 1 / 2" | "\<lfloor>t\<rfloor> = k - 1" "1 / 2 < t - of_int (k - 1)"
    by (cases "of_int k \<le> t") (auto simp: floor_eq_iff not_le) 
  then show ?thesis
    by cases (auto simp: rne_def Let_def)
qed

lemma rne_error: "\<bar>of_int (rne t) - t\<bar> \<le> 1 / 2"
proof -
  have "of_int \<lfloor>t\<rfloor> \<le> t" "t < of_int \<lfloor>t\<rfloor> + 1" by linarith+
  then show ?thesis by (auto simp: rne_def Let_def abs_le_iff)
qed

lemma rne_le_int: "t \<le> of_int k \<Longrightarrow> rne t \<le> k"
proof -
  assume a: "t \<le> of_int k"
  have f: "\<lfloor>t\<rfloor> \<le> k" using a by (simp add: floor_le_iff) 
  show ?thesis
  proof (cases "\<lfloor>t\<rfloor> = k")
    case True
    then have "t = of_int k" using a by (metis floor_le_iff le_floor_iff order_antisym of_int_floor_le)
    then show ?thesis by (simp add: rne_def)
  next
    case False
    then have "\<lfloor>t\<rfloor> + 1 \<le> k" using f by simp
    then show ?thesis by (auto simp: rne_def Let_def)
  qed
qed

lemma rne_ge_int: "of_int k \<le> t \<Longrightarrow> k \<le> rne t"
proof -
  assume a: "of_int k \<le> t"
  then have "k \<le> \<lfloor>t\<rfloor>" by (simp add: le_floor_iff)
  then show ?thesis by (auto simp: rne_def Let_def)
qed

lemma flpos_eq:
  assumes "2 powi e \<le> x" and "x < 2 powi (e + 1)"
  shows "flpos x = of_int (rne (x / 2 powi (e - 52))) * 2 powi (e - 52)"
  by (simp add: flpos_def binade_unique[OF assms] Let_def)

lemma scaled_abs_diff:
  fixes x u :: rat
  assumes "0 < u"
  shows "\<bar>x / u - c\<bar> = \<bar>x - c * u\<bar> / u"
proof -
  have "x / u - c = (x - c * u) / u" using assms by (simp add: field_simps)
  then have "\<bar>x / u - c\<bar> = \<bar>x - c * u\<bar> / \<bar>u\<bar>" by (simp only: abs_divide)
  then show ?thesis using assms by (simp only: abs_of_pos)
qed

lemma half_ulp: "(2::rat) powi (e - 53) = 2 powi (e - 52) / 2"
  using power_int_diff[of "2::rat" "e - 52" 1] by (simp add: algebra_simps)

lemma flpos_nearest:
  assumes "2 powi e \<le> x" and "x < 2 powi (e + 1)"
    and "\<bar>x - of_int k * 2 powi (e - 52)\<bar> < 2 powi (e - 53)"
  shows "flpos x = of_int k * 2 powi (e - 52)"
proof -
  let ?u = "(2::rat) powi (e - 52)"
  have u: "0 < ?u" by simp
  have "\<bar>x / ?u - of_int k\<bar> = \<bar>x - of_int k * ?u\<bar> / ?u"
    using u by (rule scaled_abs_diff)
  also have "\<dots> < (?u / 2) / ?u"
    using assms(3) u unfolding half_ulp by (simp add: divide_strict_right_mono)
  also have "\<dots> = 1 / 2" using u by simp
  finally have "rne (x / ?u) = k" by (rule rne_near)
  then show ?thesis by (simp add: flpos_eq[OF assms(1,2)])
qed

lemma flpos_error:
  assumes "2 powi e \<le> x" and "x < 2 powi (e + 1)"
  shows "\<bar>flpos x - x\<bar> \<le> 2 powi (e - 53)"
proof -
  let ?u = "(2::rat) powi (e - 52)"
  let ?r = "rat_of_int (rne (x / ?u))"
  have u: "0 < ?u" by simp
  have "\<bar>x / ?u - ?r\<bar> = \<bar>x - ?r * ?u\<bar> / ?u"
    using u by (rule scaled_abs_diff)
  moreover have "\<bar>x / ?u - ?r\<bar> \<le> 1 / 2"
    using rne_error[of "x / ?u"] by (simp add: abs_minus_commute)
  ultimately have "\<bar>x - ?r * ?u\<bar> / ?u \<le> 1 / 2" by simp
  then have "\<bar>x - ?r * ?u\<bar> \<le> ?u / 2" using u by (simp add: field_simps)
  then show ?thesis
    unfolding half_ulp flpos_eq[OF assms] by (simp add: abs_minus_commute)
qed

lemma flpos_rel_error:
  assumes "0 < x"
  shows "\<bar>flpos x - x\<bar> \<le> x / 2 ^ 53"
proof -
  note b = binade_bounds[OF assms]
  have "\<bar>flpos x - x\<bar> \<le> 2 powi (binade x - 53)" using b by (rule flpos_error)
  also have "\<dots> = 2 powi binade x / 2 ^ 53"
    using power_int_diff[of "2::rat" "binade x" 53] by simp
  also have "\<dots> \<le> x / 2 ^ 53" using b(1) by (simp add: divide_right_mono)
  finally show ?thesis .
qed

lemma binade_le_52:
  assumes "0 < x" and "x < 2 ^ 53"
  shows "binade x \<le> 52"
proof (rule ccontr)
  assume "\<not> binade x \<le> 52"
  then have "53 \<le> binade x" by simp
  then have "(2::rat) powi 53 \<le> 2 powi binade x" by (intro power_int_increasing) simp_all
  with binade_bounds(1)[OF assms(1)] assms(2) show False by simp
qed

lemma inv_ulp:
  assumes "e \<le> 52"
  shows "(of_int (2 ^ nat (52 - e)) :: rat) * 2 powi (e - 52) = 1"
proof -
  have "(of_int (2 ^ nat (52 - e)) :: rat) = 2 powi (52 - e)"
    using assms by (simp add: power_int_nonneg_exp)
  moreover have "(2::rat) powi (52 - e) * 2 powi (e - 52) = 2 powi ((52 - e) + (e - 52))"
    by (rule power_int_add[symmetric]) simp
  ultimately show ?thesis by simp
qed

lemma int_on_grid:
  assumes "e \<le> 52"
  shows "(of_int n :: rat) / 2 powi (e - 52) = of_int (n * 2 ^ nat (52 - e))"
proof -
  have u: "(0::rat) < 2 powi (e - 52)" by simp
  have "(of_int (n * 2 ^ nat (52 - e)) :: rat) * 2 powi (e - 52)
        = of_int n * (of_int (2 ^ nat (52 - e)) * 2 powi (e - 52))"
    by (simp only: of_int_mult mult.assoc)
  also have "\<dots> = of_int n" by (simp only: inv_ulp[OF assms] mult_1_right)
  finally show ?thesis using u by (simp add: field_simps)
qed

lemma flpos_le_int:
  assumes "0 < x" and "x \<le> of_int n" and "x < 2 ^ 53"
  shows "flpos x \<le> of_int n"
proof -
  let ?e = "binade x"
  let ?u = "(2::rat) powi (?e - 52)"
  note b = binade_bounds[OF assms(1)]
  have e: "?e \<le> 52" using assms(1,3) by (rule binade_le_52)
  have u: "0 < ?u" by simp
  have "x / ?u \<le> of_int n / ?u" using assms(2) u by (simp add: divide_right_mono)
  then have "x / ?u \<le> of_int (n * 2 ^ nat (52 - ?e))" by (simp only: int_on_grid[OF e])
  then have "rne (x / ?u) \<le> n * 2 ^ nat (52 - ?e)" by (rule rne_le_int)
  then have "(of_int (rne (x / ?u)) :: rat) \<le> of_int (n * 2 ^ nat (52 - ?e))"
    by (simp only: of_int_le_iff)
  then have "of_int (rne (x / ?u)) \<le> of_int n / ?u" by (simp only: int_on_grid[OF e])
  then have "of_int (rne (x / ?u)) * ?u \<le> of_int n" using u by (simp add: field_simps)
  then show ?thesis by (simp only: flpos_eq[OF b])
qed

lemma flpos_ge_int:
  assumes "0 < x" and "of_int n \<le> x" and "x < 2 ^ 53"
  shows "of_int n \<le> flpos x"
proof -
  let ?e = "binade x"
  let ?u = "(2::rat) powi (?e - 52)"
  note b = binade_bounds[OF assms(1)]
  have e: "?e \<le> 52" using assms(1,3) by (rule binade_le_52)
  have u: "0 < ?u" by simp
  have "of_int n / ?u \<le> x / ?u" using assms(2) u by (simp add: divide_right_mono)
  then have "of_int (n * 2 ^ nat (52 - ?e)) \<le> x / ?u" by (simp only: int_on_grid[OF e])
  then have "n * 2 ^ nat (52 - ?e) \<le> rne (x / ?u)" by (rule rne_ge_int)
  then have "(of_int (n * 2 ^ nat (52 - ?e)) :: rat) \<le> of_int (rne (x / ?u))"
    by (simp only: of_int_le_iff)
  then have "of_int n / ?u \<le> of_int (rne (x / ?u))" by (simp only: int_on_grid[OF e])
  then have "of_int n \<le> of_int (rne (x / ?u)) * ?u" using u by (simp add: field_simps)
  then show ?thesis by (simp only: flpos_eq[OF b])
qed

lemma flpos_int:
  assumes "0 < n" and "n < 2 ^ 53"
  shows "flpos (of_int n) = of_int n"
proof -
  have p: "(0::rat) < of_int n" using assms(1) by simp
  have "(of_int n :: rat) < of_int (2 ^ 53)" using assms(2) by (simp only: of_int_less_iff)
  then have lt: "(of_int n :: rat) < 2 ^ 53" by simp
  have "flpos (of_int n) \<le> of_int n" using p _ lt by (rule flpos_le_int) simp
  moreover have "of_int n \<le> flpos (of_int n)" using p _ lt by (rule flpos_ge_int) simp
  ultimately show ?thesis by simp
qed

lemma frac_grid:
  fixes t :: rat
  assumes "of_int D * t = of_int m" and "0 < D" and "D \<le> 100" and "t \<notin> \<int>"
  shows "of_int \<lfloor>t\<rfloor> + 1 / 100 \<le> t" and "t \<le> of_int \<lceil>t\<rceil> - 1 / 100"
proof -
  have D: "(0::rat) < of_int D" "(of_int D :: rat) \<le> 100" using assms(2,3) by simp_all
  have ne1: "of_int \<lfloor>t\<rfloor> \<noteq> t"
  proof
    assume "of_int \<lfloor>t\<rfloor> = t"
    then have "t \<in> \<int>" by (metis Ints_of_int)
    with assms(4) show False by simp
  qed
  have ne2: "of_int \<lceil>t\<rceil> \<noteq> t"
  proof
    assume "of_int \<lceil>t\<rceil> = t"
    then have "t \<in> \<int>" by (metis Ints_of_int)
    with assms(4) show False by simp
  qed
  have lo: "of_int \<lfloor>t\<rfloor> < t" unfolding less_le using ne1 of_int_floor_le[of t] by blast
  have hi: "t < of_int \<lceil>t\<rceil>" unfolding less_le using ne2 le_of_int_ceiling[of t] by (intro conjI) (assumption, rule not_sym)
  have eq1: "(of_int (m - D * \<lfloor>t\<rfloor>) :: rat) = of_int D * (t - of_int \<lfloor>t\<rfloor>)"
  proof -
    have "of_int D * (t - of_int \<lfloor>t\<rfloor>) = of_int D * t - of_int D * of_int \<lfloor>t\<rfloor>"
      by (rule right_diff_distrib)
    also have "\<dots> = of_int m - of_int D * of_int \<lfloor>t\<rfloor>" by (simp only: assms(1))
    also have "\<dots> = of_int (m - D * \<lfloor>t\<rfloor>)" by simp
    finally show ?thesis by (rule sym)
  qed
  have "(0::rat) < of_int D * (t - of_int \<lfloor>t\<rfloor>)" using D(1) lo by simp
  then have "(0::rat) < of_int (m - D * \<lfloor>t\<rfloor>)" by (simp only: eq1)
  then have "0 < m - D * \<lfloor>t\<rfloor>" by (simp only: of_int_0_less_iff)
  then have "1 \<le> m - D * \<lfloor>t\<rfloor>" by simp
  then have "(1::rat) \<le> of_int (m - D * \<lfloor>t\<rfloor>)" by (simp only: of_int_1_le_iff)
  then have "(1::rat) \<le> of_int D * (t - of_int \<lfloor>t\<rfloor>)" by (simp only: eq1)
  also have "\<dots> \<le> 100 * (t - of_int \<lfloor>t\<rfloor>)"
    using D(2) lo by (intro mult_right_mono) simp_all
  finally show "of_int \<lfloor>t\<rfloor> + 1 / 100 \<le> t" by simp
  have eq2: "(of_int (D * \<lceil>t\<rceil> - m) :: rat) = of_int D * (of_int \<lceil>t\<rceil> - t)"
  proof -
    have "of_int D * (of_int \<lceil>t\<rceil> - t) = of_int D * of_int \<lceil>t\<rceil> - of_int D * t"
      by (rule right_diff_distrib)
    also have "\<dots> = of_int D * of_int \<lceil>t\<rceil> - of_int m" by (simp only: assms(1))
    also have "\<dots> = of_int (D * \<lceil>t\<rceil> - m)" by simp
    finally show ?thesis by (rule sym)
  qed
  have "(0::rat) < of_int D * (of_int \<lceil>t\<rceil> - t)" using D(1) hi by simp
  then have "(0::rat) < of_int (D * \<lceil>t\<rceil> - m)" by (simp only: eq2)
  then have "0 < D * \<lceil>t\<rceil> - m" by (simp only: of_int_0_less_iff)
  then have "1 \<le> D * \<lceil>t\<rceil> - m" by simp
  then have "(1::rat) \<le> of_int (D * \<lceil>t\<rceil> - m)" by (simp only: of_int_1_le_iff)
  then have "(1::rat) \<le> of_int D * (of_int \<lceil>t\<rceil> - t)" by (simp only: eq2)
  also have "\<dots> \<le> 100 * (of_int \<lceil>t\<rceil> - t)"
    using D(2) hi by (intro mult_right_mono) simp_all
  finally show "t \<le> of_int \<lceil>t\<rceil> - 1 / 100" by simp
qed

lemma flpos_total_error:
  fixes y t :: rat
  assumes "0 < y" and "y < 2 ^ 45" and "\<bar>y - t\<bar> \<le> y / 2 ^ 53"
  shows "\<bar>flpos y - t\<bar> < 1 / 128"
proof -
  have "\<bar>flpos y - y\<bar> \<le> y / 2 ^ 53" using assms(1) by (rule flpos_rel_error)
  then have "\<bar>flpos y - t\<bar> \<le> 2 * (y / 2 ^ 53)" using assms(3) by linarith
  also have "\<dots> < 2 * (2 ^ 45 / 2 ^ 53)" using assms(2) by simp
  also have "\<dots> = (1::rat) / 128" by simp
  finally show ?thesis .
qed

lemma flpos_snap:
  fixes y :: rat
  assumes "0 < y" and "y < 2 ^ 53" and "\<bar>y - of_int N\<bar> * 2 ^ 54 \<le> y"
  shows "flpos y = of_int N"
proof -
  define e where "e = binade y"
  define u :: rat where "u = 2 powi (e - 52)"
  define K where "K = N * 2 ^ nat (52 - e)"
  have b: "2 powi e \<le> y" "y < 2 powi (e + 1)"
    unfolding e_def using binade_bounds[OF assms(1)] by simp_all
  have e: "e \<le> 52" unfolding e_def using assms(1,2) by (rule binade_le_52)
  have u: "u \<noteq> 0" unfolding u_def by simp
  have d: "of_int N / u = of_int K" unfolding u_def K_def using e by (rule int_on_grid)
  have g: "of_int N = of_int K * u"
    using d nonzero_divide_eq_eq[OF u, of "of_int N" "of_int K"] by blast
  have p54: "(0::rat) < 2 ^ 54" by simp
  have "\<bar>y - of_int N\<bar> \<le> y / 2 ^ 54" using assms(3) by (simp only: pos_le_divide_eq[OF p54])
  also have "\<dots> < 2 powi (e + 1) / 2 ^ 54" using b(2) p54 by (rule divide_strict_right_mono)
  also have "\<dots> = 2 powi (e + 1) / 2 powi 54" by simp
  also have "\<dots> = 2 powi (e + 1 - 54)" by (rule power_int_diff[symmetric]) simp
  also have "e + 1 - 54 = e - 53" by simp
  finally have "\<bar>y - of_int K * 2 powi (e - 52)\<bar> < 2 powi (e - 53)"
    unfolding g u_def .
  from flpos_nearest[OF b this] show ?thesis unfolding g u_def .
qed

lemma ceil_fl_close:
  fixes y t :: rat
  assumes y: "0 < y" "y < 2 ^ 45"
    and grid: "of_int D * t = of_int m" "0 < D" "D \<le> 100"
    and err: "\<bar>y - t\<bar> \<le> y / 2 ^ 53"
    and up: "t \<le> y \<Longrightarrow> (y - t) * 2 ^ 54 \<le> y"
  shows "\<lceil>flpos y\<rceil> = \<lceil>t\<rceil>"
proof -
  have tot: "\<bar>flpos y - t\<bar> < 1 / 128" using y err by (rule flpos_total_error)
  have y53: "y < 2 ^ 53" using y(2) by simp
  show ?thesis
  proof (cases "t \<in> \<int>")
    case True
    then obtain N where N: "t = of_int N" by (auto elim: Ints_cases)
    show ?thesis
    proof (cases "t \<le> y")
      case True
      then have "\<bar>y - of_int N\<bar> * 2 ^ 54 \<le> y" using up N by simp
      with y(1) y53 have "flpos y = of_int N" by (rule flpos_snap)
      then show ?thesis using N by simp
    next
      case False
      then have "y \<le> of_int N" using N by simp
      with y(1) have "flpos y \<le> of_int N" using y53 by (rule flpos_le_int)
      moreover have "of_int N - 1 < flpos y" using tot N by linarith
      ultimately have "\<lceil>flpos y\<rceil> = N" by (simp add: ceiling_unique)
      then show ?thesis using N by simp
    qed
  next
    case False
    note g = frac_grid[OF grid False]
    have "t \<noteq> of_int \<lfloor>t\<rfloor>" using False by (metis Ints_of_int)
    then have "\<lfloor>t\<rfloor> = \<lceil>t\<rceil> - 1" by (simp add: ceiling_altdef)
    then have "of_int \<lceil>t\<rceil> - 1 + 1 / 100 \<le> t" using g(1) by simp
    then have "of_int \<lceil>t\<rceil> - 1 < flpos y" "flpos y \<le> of_int \<lceil>t\<rceil>"
      using g(2) tot by linarith+
    then show ?thesis by (simp add: ceiling_unique)
  qed
qed

lemma floor_fl_close:
  fixes y t :: rat
  assumes y: "0 < y" "y < 2 ^ 45"
    and grid: "of_int D * t = of_int m" "0 < D" "D \<le> 100"
    and err: "\<bar>y - t\<bar> \<le> y / 2 ^ 53"
    and down: "y \<le> t \<Longrightarrow> (t - y) * 2 ^ 54 \<le> y"
  shows "\<lfloor>flpos y\<rfloor> = \<lfloor>t\<rfloor>"
proof -
  have tot: "\<bar>flpos y - t\<bar> < 1 / 128" using y err by (rule flpos_total_error)
  have y53: "y < 2 ^ 53" using y(2) by simp
  show ?thesis
  proof (cases "t \<in> \<int>")
    case True
    then obtain N where N: "t = of_int N" by (auto elim: Ints_cases)
    show ?thesis
    proof (cases "y \<le> t")
      case True
      then have "\<bar>y - of_int N\<bar> * 2 ^ 54 \<le> y" using down N by simp
      with y(1) y53 have "flpos y = of_int N" by (rule flpos_snap)
      then show ?thesis using N by simp
    next
      case False
      then have "of_int N \<le> y" using N by simp
      with y(1) have "of_int N \<le> flpos y" using y53 by (rule flpos_ge_int)
      moreover have "flpos y < of_int N + 1" using tot N by linarith
      ultimately have "\<lfloor>flpos y\<rfloor> = N" by (simp add: floor_unique)
      then show ?thesis using N by simp
    qed
  next
    case False
    note g = frac_grid[OF grid False]
    have "t \<noteq> of_int \<lfloor>t\<rfloor>" using False by (metis Ints_of_int)
    then have "\<lceil>t\<rceil> = \<lfloor>t\<rfloor> + 1" by (simp add: ceiling_altdef)
    then have "t \<le> of_int \<lfloor>t\<rfloor> + 1 - 1 / 100" using g(2) by simp
    then have "of_int \<lfloor>t\<rfloor> \<le> flpos y" "flpos y < of_int \<lfloor>t\<rfloor> + 1"
      using g(1) tot by linarith+
    then show ?thesis by (simp add: floor_unique)
  qed
qed

subsection \<open>The rounded expressions of the source, in exact arithmetic\<close>

lemma fl_pos: "0 < x \<Longrightarrow> fl x = flpos x"
  by (simp add: fl_def)

lemma fl_zero: "fl 0 = 0"
  by (simp add: fl_def)

lemma fl_int:
  assumes "0 \<le> n" and "n < 2 ^ 53"
  shows "fl (of_int n) = of_int n"
proof (cases "n = 0")
  case True
  then show ?thesis by (simp add: fl_zero)
next
  case False
  then have p: "0 < n" using assms(1) by simp
  then have "fl (of_int n) = flpos (of_int n)" by (simp add: fl_pos)
  also have "\<dots> = of_int n" using p assms(2) by (rule flpos_int)
  finally show ?thesis .
qed

lemma ceil_fl_scale:
  fixes c r :: rat
  assumes b: "0 < b" "b < 2 ^ 45"
    and c: "0 < c" "c \<le> 1"
    and grid: "of_int D * r = of_int k" "0 < D" "D \<le> 100"
    and err: "\<bar>c - r\<bar> * 2 ^ 53 \<le> c"
    and up: "r \<le> c \<Longrightarrow> (c - r) * 2 ^ 54 \<le> c"
  shows "\<lceil>flpos (of_int b * c)\<rceil> = \<lceil>of_int b * r\<rceil>"
proof (rule ceil_fl_close[where D = D and m = "b * k"])
  have bp: "(0::rat) < of_int b" using b(1) by simp
  show "0 < of_int b * c" using bp c(1) by simp
  have "of_int b * c \<le> of_int b * 1" using bp c(2) by (intro mult_left_mono) simp_all
  also have "(of_int b :: rat) < of_int (2 ^ 45)" using b(2) by (simp only: of_int_less_iff)
  finally show "of_int b * c < 2 ^ 45" by simp
  have "of_int D * (of_int b * r) = of_int b * (of_int D * r)" by (simp only: mult.left_commute)
  also have "\<dots> = of_int (b * k)" by (simp only: grid(1) of_int_mult)
  finally show "of_int D * (of_int b * r) = of_int (b * k)" .
  show "0 < D" "D \<le> 100" by (rule grid)+
  have e1: "\<bar>c - r\<bar> \<le> c / 2 ^ 53" using err by (simp add: pos_le_divide_eq)
  have "\<bar>of_int b * c - of_int b * r\<bar> = of_int b * \<bar>c - r\<bar>"
    using bp by (simp add: right_diff_distrib[symmetric] abs_mult)
  also have "\<dots> \<le> of_int b * (c / 2 ^ 53)" using bp e1 by (intro mult_left_mono) simp_all
  finally show "\<bar>of_int b * c - of_int b * r\<bar> \<le> of_int b * c / 2 ^ 53" by simp
  assume "of_int b * r \<le> of_int b * c"
  then have "r \<le> c" using bp by simp
  then have "(c - r) * 2 ^ 54 \<le> c" by (rule up)
  then have "of_int b * ((c - r) * 2 ^ 54) \<le> of_int b * c" using bp by (intro mult_left_mono) simp_all
  then show "(of_int b * c - of_int b * r) * 2 ^ 54 \<le> of_int b * c"
    by (simp only: right_diff_distrib[symmetric] mult.assoc)
qed

lemma floor_fl_scale:
  fixes c r :: rat
  assumes b: "0 < b" "b < 2 ^ 45"
    and c: "0 < c" "c \<le> 1"
    and grid: "of_int D * r = of_int k" "0 < D" "D \<le> 100"
    and err: "\<bar>c - r\<bar> * 2 ^ 53 \<le> c"
    and down: "c \<le> r \<Longrightarrow> (r - c) * 2 ^ 54 \<le> c"
  shows "\<lfloor>flpos (of_int b * c)\<rfloor> = \<lfloor>of_int b * r\<rfloor>"
proof (rule floor_fl_close[where D = D and m = "b * k"])
  have bp: "(0::rat) < of_int b" using b(1) by simp
  show "0 < of_int b * c" using bp c(1) by simp
  have "of_int b * c \<le> of_int b * 1" using bp c(2) by (intro mult_left_mono) simp_all
  also have "(of_int b :: rat) < of_int (2 ^ 45)" using b(2) by (simp only: of_int_less_iff)
  finally show "of_int b * c < 2 ^ 45" by simp
  have "of_int D * (of_int b * r) = of_int b * (of_int D * r)" by (simp only: mult.left_commute)
  also have "\<dots> = of_int (b * k)" by (simp only: grid(1) of_int_mult)
  finally show "of_int D * (of_int b * r) = of_int (b * k)" .
  show "0 < D" "D \<le> 100" by (rule grid)+
  have e1: "\<bar>c - r\<bar> \<le> c / 2 ^ 53" using err by (simp add: pos_le_divide_eq)
  have "\<bar>of_int b * c - of_int b * r\<bar> = of_int b * \<bar>c - r\<bar>"
    using bp by (simp add: right_diff_distrib[symmetric] abs_mult)
  also have "\<dots> \<le> of_int b * (c / 2 ^ 53)" using bp e1 by (intro mult_left_mono) simp_all
  finally show "\<bar>of_int b * c - of_int b * r\<bar> \<le> of_int b * c / 2 ^ 53" by simp
  assume "of_int b * c \<le> of_int b * r"
  then have "c \<le> r" using bp by simp
  then have "(r - c) * 2 ^ 54 \<le> c" by (rule down)
  then have "of_int b * ((r - c) * 2 ^ 54) \<le> of_int b * c" using bp by (intro mult_left_mono) simp_all
  then show "(of_int b * r - of_int b * c) * 2 ^ 54 \<le> of_int b * c"
    by (simp only: right_diff_distrib[symmetric] mult.assoc)
qed

lemma pct_consts:
  "js_div 100 100 = 1"
  "js_div 90 100 = 8106479329266893 / 9007199254740992"
  "js_div 80 100 = 3602879701896397 / 4503599627370496"
  "js_div 70 100 = 3152519739159347 / 4503599627370496"
  "js_div 20 100 = 3602879701896397 / 18014398509481984"
  by code_simp+

lemma keep_const:
  "js_sub 1 (js_div 3 100) = 4368491638549381 / 4503599627370496"
  by code_simp

lemma platform_ceil_exact:
  assumes "0 \<le> a" and "a < 2 ^ 45"
  shows "Math_ceil (js_div (js_mul (of_int a) (of_int PLATFORM_CUT_PERCENT)) 100)
         = \<lceil>(of_int a * 3 / 100 :: rat)\<rceil>"
proof (cases "a = 0")
  case True
  then show ?thesis by (simp add: Math_ceil_def js_div_def js_mul_def fl_zero)
next
  case False
  then have a: "0 < a" using assms(1) by simp
  have m: "js_mul (of_int a) (of_int PLATFORM_CUT_PERCENT) = of_int (a * 3)"
  proof -
    have "0 \<le> a * 3" "a * 3 < 2 ^ 53" using a assms(2) by simp_all
    then have "fl (of_int (a * 3)) = of_int (a * 3)" by (rule fl_int)
    then show ?thesis by (simp add: js_mul_def PLATFORM_CUT_PERCENT_def)
  qed
  let ?y = "(of_int (a * 3) / 100 :: rat)"
  have yp: "0 < ?y" using a by simp
  have "?y \<le> of_int a" using a by simp
  also have "(of_int a :: rat) < of_int (2 ^ 45)" using assms(2) by (simp only: of_int_less_iff)
  finally have y45: "?y < 2 ^ 45" by simp
  have "\<lceil>flpos ?y\<rceil> = \<lceil>?y\<rceil>"
  proof (rule ceil_fl_close[where D = 100 and m = "a * 3"])
    show "0 < ?y" by (rule yp)
    show "?y < 2 ^ 45" by (rule y45)
    show "of_int 100 * ?y = of_int (a * 3)" by simp
    show "(0::int) < 100" "(100::int) \<le> 100" by simp_all
    show "\<bar>?y - ?y\<bar> \<le> ?y / 2 ^ 53" using yp by simp
    show "(?y - ?y) * 2 ^ 54 \<le> ?y" using yp by simp
  qed
  then show ?thesis using yp by (simp add: m Math_ceil_def js_div_def fl_pos)
qed

lemma capture_ceil_exact:
  assumes "0 \<le> b" and "b < 2 ^ 45"
  shows "Math_ceil (js_mul (of_int b) (js_div (of_int (PIECE_CAPTURE_PERCENT pc)) 100))
         = \<lceil>(of_int b * of_int (PIECE_CAPTURE_PERCENT pc) / 100 :: rat)\<rceil>"
proof (cases "b = 0")
  case True
  then show ?thesis by (simp add: Math_ceil_def js_mul_def fl_zero)
next
  case False
  then have b: "0 < b" using assms(1) by simp
  have bp: "(0::rat) < of_int b" using b by simp
  define c where "c = js_div (of_int (PIECE_CAPTURE_PERCENT pc)) 100"
  define r :: rat where "r = of_int (PIECE_CAPTURE_PERCENT pc) / 100"
  have facts: "0 < c \<and> c \<le> 1 \<and> of_int 100 * r = of_int (PIECE_CAPTURE_PERCENT pc)
      \<and> \<bar>c - r\<bar> * 2 ^ 53 \<le> c \<and> (r \<le> c \<longrightarrow> (c - r) * 2 ^ 54 \<le> c)"
    unfolding c_def r_def by (cases pc) (simp_all add: pct_consts)
  have cp: "0 < of_int b * c" using bp facts by simp
  have "\<lceil>flpos (of_int b * c)\<rceil> = \<lceil>of_int b * r\<rceil>"
    using b assms(2) facts by (intro ceil_fl_scale[where D = 100 and k = "PIECE_CAPTURE_PERCENT pc"]) simp_all
  then show ?thesis using cp
    by (simp add: Math_ceil_def js_mul_def fl_pos c_def[symmetric] r_def)
qed

lemma deposit_floor_exact:
  assumes "0 \<le> d" and "d < 2 ^ 45"
  shows "Math_floor (js_mul (of_int d) (js_sub 1 (js_div (of_int PLATFORM_CUT_PERCENT) 100)))
         = \<lfloor>(of_int d * 97 / 100 :: rat)\<rfloor>"
proof (cases "d = 0")
  case True
  then show ?thesis by (simp add: Math_floor_def js_mul_def fl_zero)
next
  case False
  then have d: "0 < d" using assms(1) by simp
  have bp: "(0::rat) < of_int d" using d by simp
  let ?c = "(4368491638549381 / 4503599627370496 :: rat)"
  have cp: "0 < of_int d * ?c" using bp by simp
  have "\<lfloor>flpos (of_int d * ?c)\<rfloor> = \<lfloor>of_int d * (97 / 100 :: rat)\<rfloor>"
    using d assms(2) by (intro floor_fl_scale[where D = 100 and k = 97]) simp_all
  then show ?thesis using cp
    by (simp add: Math_floor_def js_mul_def fl_pos keep_const PLATFORM_CUT_PERCENT_def)
qed

lemma floor_97_ceil_3: "\<lfloor>(of_int d * 97 / 100 :: rat)\<rfloor> = d - \<lceil>(of_int d * 3 / 100 :: rat)\<rceil>"
proof (rule floor_unique)
  define x :: rat where "x = of_int d * 3 / 100"
  have c1: "of_int \<lceil>x\<rceil> - 1 < x" by (rule conjunct1[OF ceiling_correct])
  have c2: "x \<le> of_int \<lceil>x\<rceil>" by (rule conjunct2[OF ceiling_correct])
  have e: "(of_int d * 97 / 100 :: rat) = of_int d - x" unfolding x_def by simp
  have "of_int d - of_int \<lceil>x\<rceil> \<le> of_int d - x" using c2 by linarith
  then show "of_int (d - \<lceil>(of_int d * 3 / 100 :: rat)\<rceil>) \<le> (of_int d * 97 / 100 :: rat)"
    unfolding e x_def[symmetric] by (simp only: of_int_diff)
  have "of_int d - x < of_int d - of_int \<lceil>x\<rceil> + 1" using c1 by linarith
  then show "(of_int d * 97 / 100 :: rat) < of_int (d - \<lceil>(of_int d * 3 / 100 :: rat)\<rceil>) + 1"
    unfolding e x_def[symmetric] by (simp only: of_int_diff)
qed

section \<open>The sample game, evaluated\<close>

lemma sats_at_500: "centsToSats 100 500 = Inr 200000"
  by code_simp

lemma created_game:
  "createGame plyEngine newManager ''s1'' ''a1'' ''ann'' ''s2'' ''a2'' ''bob'' 100 500 ''g1'' True 0
     = Inr (sampleManager 200000 200000, Some (sampleGame 200000 200000))"
  by (simp add: createGame_def getTierByValue_def STAKE_TIERS_def sats_at_500 sampleManager_def
      sampleGame_def newManager_def plyEngine_def Let_def)

lemma started_manager:
  "startedManager d b =
     \<lparr>games = [''g1'' \<mapsto> paidGame d b],
      playerToGame = [''s1'' \<mapsto> ''g1'', ''s2'' \<mapsto> ''g1''],
      turnTimers = [''g1'' \<mapsto> 0], pauseTimers = Map.empty, disconnectTimers = Map.empty,
      scheduled = [(0, TURN_TIMEOUT_MS, TurnTimeout ''g1'')], nextHandle = 1\<rparr>"
  by (simp add: startedManager_def sampleManager_def confirmWagerPayment_def newManager_def
      storeGame_def Let_def sampleGame_def paidGame_def mkPlayer_def startTurnTimer_def
      clearTurnTimer_def setTimeout_def)

lemma started_game: "games (startedManager d b) ''g1'' = Some (paidGame d b)"
  by (simp add: startedManager_def sampleManager_def confirmWagerPayment_def newManager_def
      storeGame_def Let_def sampleGame_def paidGame_def mkPlayer_def startTurnTimer_def
      clearTurnTimer_def setTimeout_def)

lemma paid_gid: "gid (paidGame d b) = ''g1''"
  by (simp add: paidGame_def sampleGame_def)

lemma getGameBySocket_ref:
  "getGameBySocket m sid = map_option snd (gameRefBySocket m sid)"
  by (simp add: getGameBySocket_def gameRefBySocket_def split: option.splits)

lemma gameRef_games:
  "gameRefBySocket m sid = Some (key, g) \<Longrightarrow> games m key = Some g \<and> playerToGame m sid = Some key"
  by (auto simp: gameRefBySocket_def split: option.splits if_splits)

lemma stored_game [simp]: "games (storeGame m key g) key = Some g"
  by (simp add: storeGame_def)

lemma pawn_at_200000:
  "Math_ceil (js_mul 200000 (js_div 20 100)) = 40000"
  using capture_ceil_exact[of 200000 Pawn] by simp

lemma cut_of_40000:
  "Math_ceil (js_div (js_mul 40000 (of_int PLATFORM_CUT_PERCENT)) 100) = 1200"
  using platform_ceil_exact[of 40000] by simp

lemma traded_game: "games tradedManager ''g1'' = Some tradedGame"
  by (simp add: tradedManager_def tradedGame_def started_manager attemptMove_def
      gameRefBySocket_def getSlot_def currentTurn_def plyEngine_def paidGame_def sampleGame_def
      mkPlayer_def Let_def recordCapture_def pawn_at_200000 cut_of_40000
      finishMove_def okMove_def storeGame_def startTurnTimer_def clearTurnTimer_def
      clearTimeout_def setTimeout_def opponentSlot_def)

lemma resigned_game:
  "games (fst (resign (startedManager d b) ''s1'' 5)) ''g1''
     = Some ((paidGame d b)\<lparr>phase := Gameover, endedAt := Some 5,
          endReason := Some Resignation, winner := Some Black, pendingPayment := None\<rparr>)"
  by (simp add: started_manager resign_def gameRefBySocket_def getSlot_def paidGame_def
      sampleGame_def mkPlayer_def endGame_def Let_def opponentSlot_def)

section \<open>Settlement of a decisive game\<close>

lemma foldl_add_sum:
  fixes f :: "'a \<Rightarrow> int"
  shows "foldl (\<lambda>sum cp. sum + f cp) a xs = a + sum_list (map f xs)"
  by (induction xs arbitrary: a) simp_all

lemma applyPlatformCut_exact:
  assumes "0 \<le> a" and "a < 2 ^ 45"
  shows "splitPlatformSats (applyPlatformCut a) = \<lceil>(of_int a * 3 / 100 :: rat)\<rceil>"
    and "recipientSats (applyPlatformCut a) = a - \<lceil>(of_int a * 3 / 100 :: rat)\<rceil>"
  using platform_ceil_exact[OF assms] by (simp_all add: applyPlatformCut_def Let_def)

lemma endGame_result:
  "snd (snd (endGame m g w reason now)) =
     \<lparr>res_winner = Some w, res_loser = Some (opponentSlot w), res_reason = reason,
      res_pot = pot g + depositSats g * 2,
      winnerPayout = depositSats g
         + (depositSats g - splitPlatformSats (applyPlatformCut (depositSats g)))
         + sum_list (map capturerSats (filter (\<lambda>cp. toSlot cp = w) (capturePayments g))),
      loserPayout = 0,
      platformCut = splitPlatformSats (applyPlatformCut (depositSats g))
         + sum_list (map platformSats (capturePayments g)),
      whiteAddress = address (white g), blackAddress = address (black g)\<rparr>"
  by (simp add: endGame_def Let_def foldl_add_sum applyPlatformCut_def)

lemma endGame_game:
  "fst (snd (endGame m g w reason now)) =
     g\<lparr>phase := Gameover, endedAt := Some now, endReason := Some reason,
       winner := Some w, pendingPayment := None\<rparr>"
  by (simp add: endGame_def Let_def)

lemma endGame_manager:
  "fst (endGame m g w reason now) = clearGameTimers m (gid g)"
  by (simp add: endGame_def Let_def)

text \<open>
  C1.  Whatever the game, the winner and the reason, the result of \<open>endGame\<close> names
  the winner and the opponent as loser; the winner's payout is the own deposit, plus
  the opponent's deposit less the platform cut that \<open>applyPlatformCut\<close> takes from
  it, plus the capturer share of every ledger entry whose capturer is the winner; the
  loser's payout is 0; the platform cut is the cut on the losing deposit plus the
  platform shares of all ledger entries, whoever captured.  For a deposit below
  \<open>2^45\<close> satoshis the cut on the deposit is exactly \<open>ceil(deposit * 3 / 100)\<close>.
\<close>

theorem endGame_decisive_payout:
  "res_winner (snd (snd (endGame m g w reason now))) = Some w
   \<and> res_loser (snd (snd (endGame m g w reason now))) = Some (opponentSlot w)
   \<and> winnerPayout (snd (snd (endGame m g w reason now)))
       = depositSats g
         + (depositSats g - splitPlatformSats (applyPlatformCut (depositSats g)))
         + sum_list (map capturerSats (filter (\<lambda>cp. toSlot cp = w) (capturePayments g)))
   \<and> loserPayout (snd (snd (endGame m g w reason now))) = 0
   \<and> platformCut (snd (snd (endGame m g w reason now)))
       = splitPlatformSats (applyPlatformCut (depositSats g))
         + sum_list (map platformSats (capturePayments g))
   \<and> (0 \<le> depositSats g \<and> depositSats g < 2 ^ 45 \<longrightarrow>
        splitPlatformSats (applyPlatformCut (depositSats g))
          = \<lceil>(of_int (depositSats g) * 3 / 100 :: rat)\<rceil>)"
  by (simp add: endGame_result applyPlatformCut_exact)

theorem endGame_decisive_payout_witness:
  "winnerPayout (snd (snd (endGame (startedManager 200000 200000) tradedGame White Checkmate 9)))
     = 200000 + (200000 - 6000) + 38800
   \<and> loserPayout (snd (snd (endGame (startedManager 200000 200000) tradedGame White Checkmate 9)))
     = 0
   \<and> platformCut (snd (snd (endGame (startedManager 200000 200000) tradedGame White Checkmate 9)))
     = 6000 + (1200 + 1200)"
  using endGame_decisive_payout[of "startedManager 200000 200000" tradedGame White Checkmate 9]
  by (simp add: tradedGame_def paidGame_def sampleGame_def)

text \<open>
  C2.  The claim does not hold of the code.  Both seats have confirmed a deposit of
  200000, so the pot stored in the game is 400000 and holds both raw deposits;
  nothing was captured; White mates.  The result pays 394000 to the winner and 6000
  to the platform, 400000 together, which is the stored pot.  The pot field of the
  result is the stored pot plus twice the deposit, 800000: the deposits are counted a
  second time.
\<close>

theorem endGame_pot_counts_deposits_twice:
  "games (startedManager 200000 200000) ''g1'' = Some (paidGame 200000 200000)
   \<and> pot (paidGame 200000 200000) = 400000
   \<and> capturePayments (paidGame 200000 200000) = []
   \<and> winnerPayout (snd (snd (endGame (startedManager 200000 200000) (paidGame 200000 200000)
       White Checkmate 9))) = 394000
   \<and> platformCut (snd (snd (endGame (startedManager 200000 200000) (paidGame 200000 200000)
       White Checkmate 9))) = 6000
   \<and> res_pot (snd (snd (endGame (startedManager 200000 200000) (paidGame 200000 200000)
       White Checkmate 9))) = 800000
   \<and> winnerPayout (snd (snd (endGame (startedManager 200000 200000) (paidGame 200000 200000)
       White Checkmate 9)))
     + platformCut (snd (snd (endGame (startedManager 200000 200000) (paidGame 200000 200000)
       White Checkmate 9)))
     \<noteq> res_pot (snd (snd (endGame (startedManager 200000 200000) (paidGame 200000 200000)
       White Checkmate 9)))"
  by (simp add: started_game endGame_result applyPlatformCut_exact paidGame_def sampleGame_def)

section \<open>Settlement of a draw\<close>

lemma endGameDraw_result:
  "snd (snd (endGameDraw m g reason now)) =
     \<lparr>res_winner = None, res_loser = None, res_reason = reason,
      res_pot = pot g + depositSats g * 2,
      winnerPayout = Math_floor (js_mul (of_int (depositSats g))
                          (js_sub 1 (js_div (of_int PLATFORM_CUT_PERCENT) 100))),
      loserPayout = Math_floor (js_mul (of_int (depositSats g))
                          (js_sub 1 (js_div (of_int PLATFORM_CUT_PERCENT) 100))),
      platformCut = (depositSats g - Math_floor (js_mul (of_int (depositSats g))
                          (js_sub 1 (js_div (of_int PLATFORM_CUT_PERCENT) 100)))) * 2,
      whiteAddress = address (white g), blackAddress = address (black g)\<rparr>"
  by (simp add: endGameDraw_def Let_def)

lemma endGameDraw_game:
  "fst (snd (endGameDraw m g reason now)) =
     g\<lparr>phase := Gameover, endedAt := Some now, endReason := Some reason,
       winner := None, pendingPayment := None\<rparr>"
  by (simp add: endGameDraw_def Let_def)

lemma endGameDraw_manager:
  "fst (endGameDraw m g reason now) = clearGameTimers m (gid g)"
  by (simp add: endGameDraw_def Let_def)

lemma draw_return_exact:
  assumes "0 \<le> d" and "d < 2 ^ 45"
  shows "Math_floor (js_mul (of_int d) (js_sub 1 (js_div (of_int PLATFORM_CUT_PERCENT) 100)))
         = d - \<lceil>(of_int d * 3 / 100 :: rat)\<rceil>"
  using deposit_floor_exact[OF assms] floor_97_ceil_3[of d] by simp

text \<open>
  C4.  Whatever the game and the reason, the result of \<open>endGameDraw\<close> names no
  winner, pays both seats the same amount, and twice that amount plus the platform
  cut is twice the deposit.  The amount does not depend on the capture ledger or on
  the pot: a game that differs in these two fields only gets the same payout.  For a
  deposit below \<open>2^45\<close> satoshis the amount is the deposit less the platform cut
  that \<open>applyPlatformCut\<close> takes from it, that is less \<open>ceil(deposit * 3 / 100)\<close>.
\<close>

theorem endGameDraw_payout:
  "res_winner (snd (snd (endGameDraw m g reason now))) = None
   \<and> res_loser (snd (snd (endGameDraw m g reason now))) = None
   \<and> loserPayout (snd (snd (endGameDraw m g reason now)))
       = winnerPayout (snd (snd (endGameDraw m g reason now)))
   \<and> 2 * winnerPayout (snd (snd (endGameDraw m g reason now)))
       + platformCut (snd (snd (endGameDraw m g reason now))) = 2 * depositSats g
   \<and> winnerPayout (snd (snd (endGameDraw m' (g\<lparr>capturePayments := cps, pot := p\<rparr>) reason' now')))
       = winnerPayout (snd (snd (endGameDraw m g reason now)))
   \<and> (0 \<le> depositSats g \<and> depositSats g < 2 ^ 45 \<longrightarrow>
        winnerPayout (snd (snd (endGameDraw m g reason now)))
          = depositSats g - splitPlatformSats (applyPlatformCut (depositSats g))
        \<and> winnerPayout (snd (snd (endGameDraw m g reason now)))
          = depositSats g - \<lceil>(of_int (depositSats g) * 3 / 100 :: rat)\<rceil>)"
  by (simp add: endGameDraw_result applyPlatformCut_exact draw_return_exact)

theorem endGameDraw_payout_witness:
  "winnerPayout (snd (snd (endGameDraw (startedManager 200000 200000) tradedGame Stalemate 9)))
     = 200000 - 6000
   \<and> loserPayout (snd (snd (endGameDraw (startedManager 200000 200000) tradedGame Stalemate 9)))
     = 194000
   \<and> platformCut (snd (snd (endGameDraw (startedManager 200000 200000) tradedGame Stalemate 9)))
     = 12000"
  using endGameDraw_payout[where m = "startedManager 200000 200000" and g = tradedGame
      and reason = Stalemate and now = 9 and m' = "startedManager 200000 200000"
      and cps = "[]" and p = 0 and reason' = Stalemate and now' = 9]
  by (simp add: tradedGame_def paidGame_def sampleGame_def)

section \<open>Capture payments\<close>

lemma percent_range: "0 \<le> PIECE_CAPTURE_PERCENT pc \<and> PIECE_CAPTURE_PERCENT pc \<le> 100"
  by (cases pc) simp_all

lemma amount_range:
  assumes "0 \<le> b" and "b < 2 ^ 45"
  shows "0 \<le> \<lceil>(of_int b * of_int (PIECE_CAPTURE_PERCENT pc) / 100 :: rat)\<rceil>"
    and "\<lceil>(of_int b * of_int (PIECE_CAPTURE_PERCENT pc) / 100 :: rat)\<rceil> < 2 ^ 45"
proof -
  let ?p = "PIECE_CAPTURE_PERCENT pc"
  let ?x = "(of_int b * of_int ?p / 100 :: rat)"
  have p: "(0::rat) \<le> of_int ?p" "(of_int ?p :: rat) \<le> 100"
    using percent_range[of pc] by simp_all
  have b: "(0::rat) \<le> of_int b" using assms(1) by simp
  have "0 \<le> ?x" using p(1) b by simp
  then show "0 \<le> \<lceil>?x\<rceil>" by (simp add: ceiling_le_iff[symmetric] zero_le_ceiling) 
  have "of_int b * of_int ?p \<le> (of_int b :: rat) * 100" using p(2) b by (intro mult_left_mono)
  then have "?x \<le> of_int b" by simp
  then have "\<lceil>?x\<rceil> \<le> b" by (simp add: ceiling_le_iff)
  then show "\<lceil>?x\<rceil> < 2 ^ 45" using assms(2) by linarith
qed

lemma recordCapture_exact:
  assumes "0 \<le> baseSats g" and "baseSats g < 2 ^ 45"
  shows "recordCapture g slot pc =
     (g\<lparr>capturePayments := capturePayments g @
          [\<lparr>fromSlot = opponentSlot slot, toSlot = slot, piece = pc,
            amountSats = \<lceil>(of_int (baseSats g) * of_int (PIECE_CAPTURE_PERCENT pc) / 100 :: rat)\<rceil>,
            capturerSats = \<lceil>(of_int (baseSats g) * of_int (PIECE_CAPTURE_PERCENT pc) / 100 :: rat)\<rceil>
              - \<lceil>(of_int \<lceil>(of_int (baseSats g) * of_int (PIECE_CAPTURE_PERCENT pc) / 100 :: rat)\<rceil> * 3 / 100 :: rat)\<rceil>,
            platformSats = \<lceil>(of_int \<lceil>(of_int (baseSats g) * of_int (PIECE_CAPTURE_PERCENT pc) / 100 :: rat)\<rceil> * 3 / 100 :: rat)\<rceil>,
            paid = False, txid = None\<rparr>],
        pot := pot g + \<lceil>(of_int (baseSats g) * of_int (PIECE_CAPTURE_PERCENT pc) / 100 :: rat)\<rceil>\<rparr>,
      \<lparr>victimSlot = opponentSlot slot, capturerSlot = slot, ci_piece = pc,
       ci_amountSats = \<lceil>(of_int (baseSats g) * of_int (PIECE_CAPTURE_PERCENT pc) / 100 :: rat)\<rceil>,
       ci_capturerSats = \<lceil>(of_int (baseSats g) * of_int (PIECE_CAPTURE_PERCENT pc) / 100 :: rat)\<rceil>
              - \<lceil>(of_int \<lceil>(of_int (baseSats g) * of_int (PIECE_CAPTURE_PERCENT pc) / 100 :: rat)\<rceil> * 3 / 100 :: rat)\<rceil>,
       ci_platformSats = \<lceil>(of_int \<lceil>(of_int (baseSats g) * of_int (PIECE_CAPTURE_PERCENT pc) / 100 :: rat)\<rceil> * 3 / 100 :: rat)\<rceil>\<rparr>)"
proof -
  note a = capture_ceil_exact[OF assms, of pc]
  note r = amount_range[OF assms, of pc]
  note s = platform_ceil_exact[OF r]
  show ?thesis
    unfolding recordCapture_def Let_def a s by simp
qed

lemma finishMove_stored:
  "\<exists>g'. games (fst (finishMove eng m key game slot mr cp now)) key = Some g'
        \<and> capturePayments g' = capturePayments game \<and> pot g' = pot game"
  by (simp add: finishMove_def Let_def endGame_def endGameDraw_def split: prod.splits)

lemma finishMove_result:
  "success (snd (finishMove eng m key game slot mr cp now))
   \<and> capturePayment (snd (finishMove eng m key game slot mr cp now)) = cp"
  by (simp add: finishMove_def Let_def okMove_def split: prod.splits)

lemma setPlayer_fields [simp]:
  "baseSats (setPlayer g s p) = baseSats g"
  "depositSats (setPlayer g s p) = depositSats g"
  "pot (setPlayer g s p) = pot g"
  "capturePayments (setPlayer g s p) = capturePayments g"
  "phase (setPlayer g s p) = phase g"
  "gid (setPlayer g s p) = gid g"
  by (cases s; simp)+

text \<open>
  C3.  A player bound to a game in phase playing, whose turn it is, makes a legal move
  that captures a piece of kind \<open>pc\<close>, at a base below \<open>2^45\<close> satoshis.  The move
  succeeds; the stored game's ledger is the old ledger followed by one entry from the
  opponent to the mover with total \<open>ceil(base * percent pc / 100)\<close>, platform share
  \<open>ceil(total * 3 / 100)\<close> and capturer share total less platform share; the pot has
  grown by exactly the total; the same figures are reported in the move result.  The
  percentages are king 100, queen 90, rook 80, bishop 70, knight 70, pawn 20, the
  platform percentage is 3, and a pawn taken at base 100000 costs 20000, of which 600
  go to the platform and 19400 to the capturer.
\<close>

theorem attemptMove_capture_payment:
  assumes bound: "playerToGame m sid = Some key" "key \<noteq> []" "games m key = Some g"
    and playing: "phase g = Playing"
    and seat: "getSlot g sid = Some slot" "currentTurn eng g = slot"
    and legal: "chess_move eng (chess g) src dst (if promotion = Some [] then None else promotion)
                 = Some (mv, pos)"
    and capture: "mv_captured mv = Some pc"
    and range: "0 \<le> baseSats g" "baseSats g < 2 ^ 45"
    and amount: "amount = \<lceil>(of_int (baseSats g) * of_int (PIECE_CAPTURE_PERCENT pc) / 100 :: rat)\<rceil>"
    and share: "share = \<lceil>(of_int amount * of_int PLATFORM_CUT_PERCENT / 100 :: rat)\<rceil>"
  shows "success (snd (attemptMove eng m sid src dst promotion now))
     \<and> (\<exists>g'. games (fst (attemptMove eng m sid src dst promotion now)) key = Some g'
            \<and> capturePayments g' = capturePayments g @
                 [\<lparr>fromSlot = opponentSlot slot, toSlot = slot, piece = pc,
                   amountSats = amount, capturerSats = amount - share,
                   platformSats = share, paid = False, txid = None\<rparr>]
            \<and> pot g' = pot g + amount)
     \<and> capturePayment (snd (attemptMove eng m sid src dst promotion now))
         = Some \<lparr>victimSlot = opponentSlot slot, capturerSlot = slot, ci_piece = pc,
                 ci_amountSats = amount, ci_capturerSats = amount - share,
                 ci_platformSats = share\<rparr>
     \<and> PIECE_CAPTURE_PERCENT King = 100 \<and> PIECE_CAPTURE_PERCENT Queen = 90
     \<and> PIECE_CAPTURE_PERCENT Rook = 80 \<and> PIECE_CAPTURE_PERCENT Bishop = 70
     \<and> PIECE_CAPTURE_PERCENT Knight = 70 \<and> PIECE_CAPTURE_PERCENT Pawn = 20
     \<and> PLATFORM_CUT_PERCENT = 3
     \<and> (baseSats g = 100000 \<and> pc = Pawn \<longrightarrow> amount = 20000 \<and> share = 600 \<and> amount - share = 19400)"
proof -
  define mr where "mr = \<lparr>rec_san = mv_san mv, rec_from = mv_from mv,
                          rec_to = mv_to mv, rec_color = mv_color mv\<rparr>"
  define g2 where "g2 = (setPlayer (g\<lparr>chess := pos\<rparr>) slot
       ((player (g\<lparr>chess := pos\<rparr>) slot)
          \<lparr>moveCount := Suc (moveCount (player (g\<lparr>chess := pos\<rparr>) slot))\<rparr>))
       \<lparr>moveHistory := moveHistory (setPlayer (g\<lparr>chess := pos\<rparr>) slot
          ((player (g\<lparr>chess := pos\<rparr>) slot)
             \<lparr>moveCount := Suc (moveCount (player (g\<lparr>chess := pos\<rparr>) slot))\<rparr>)) @ [mr]\<rparr>"
  have g2: "baseSats g2 = baseSats g" "capturePayments g2 = capturePayments g" "pot g2 = pot g"
    by (simp_all add: g2_def)
  obtain g3 info where rc: "recordCapture g2 slot pc = (g3, info)"
    by (cases "recordCapture g2 slot pc")
  have ref: "gameRefBySocket m sid = Some (key, g)"
    using bound by (simp add: gameRefBySocket_def)
  have am: "attemptMove eng m sid src dst promotion now
            = finishMove eng m key g3 slot mr (Some info) now"
    using ref playing seat legal capture rc
    by (simp add: attemptMove_def Let_def g2_def mr_def)
  have share': "share = \<lceil>(of_int amount * 3 / 100 :: rat)\<rceil>"
    using share by (simp add: PLATFORM_CUT_PERCENT_def)
  have ex: "recordCapture g2 slot pc =
     (g2\<lparr>capturePayments := capturePayments g2 @
          [\<lparr>fromSlot = opponentSlot slot, toSlot = slot, piece = pc,
            amountSats = amount, capturerSats = amount - share,
            platformSats = share, paid = False, txid = None\<rparr>],
        pot := pot g2 + amount\<rparr>,
      \<lparr>victimSlot = opponentSlot slot, capturerSlot = slot, ci_piece = pc,
       ci_amountSats = amount, ci_capturerSats = amount - share, ci_platformSats = share\<rparr>)"
    using recordCapture_exact[of g2 slot pc] range
    unfolding g2(1) amount[symmetric] share'[symmetric] by simp
  have g3: "capturePayments g3 = capturePayments g @
                 [\<lparr>fromSlot = opponentSlot slot, toSlot = slot, piece = pc,
                   amountSats = amount, capturerSats = amount - share,
                   platformSats = share, paid = False, txid = None\<rparr>]"
      "pot g3 = pot g + amount"
    and info: "info = \<lparr>victimSlot = opponentSlot slot, capturerSlot = slot, ci_piece = pc,
       ci_amountSats = amount, ci_capturerSats = amount - share, ci_platformSats = share\<rparr>"
    using rc ex g2 by auto
  have scen: "baseSats g = 100000 \<and> pc = Pawn \<longrightarrow> amount = 20000 \<and> share = 600 \<and> amount - share = 19400"
    using amount share' by simp
  show ?thesis
    using finishMove_stored[of eng m key g3 slot mr "Some info" now]
      finishMove_result[of eng m key g3 slot mr "Some info" now] scen
    by (simp add: am g3 info PLATFORM_CUT_PERCENT_def)
qed

theorem attemptMove_capture_payment_witness:
  "success (snd (attemptMove plyEngine (startedManager 100000 100000) ''s1'' ''e4'' ''d5'' None 3))
   \<and> (\<exists>g'. games (fst (attemptMove plyEngine (startedManager 100000 100000)
                ''s1'' ''e4'' ''d5'' None 3)) ''g1'' = Some g'
          \<and> capturePayments g' =
               [\<lparr>fromSlot = Black, toSlot = White, piece = Pawn,
                 amountSats = 20000, capturerSats = 19400,
                 platformSats = 600, paid = False, txid = None\<rparr>]
          \<and> pot g' = 200000 + 20000)"
  using attemptMove_capture_payment[where eng = plyEngine and m = "startedManager 100000 100000"
      and sid = "''s1''" and key = "''g1''" and g = "paidGame 100000 100000" and slot = White
      and src = "''e4''" and dst = "''d5''" and promotion = None and pc = Pawn and pos = 1
      and mv = "\<lparr>mv_san = ''e4d5'', mv_from = ''e4'', mv_to = ''d5'', mv_color = Color_w,
                 mv_captured = Some Pawn\<rparr>"
      and amount = 20000 and share = 600 and now = 3]
  by (simp add: started_manager paidGame_def sampleGame_def mkPlayer_def getSlot_def
      currentTurn_def plyEngine_def opponentSlot_def PLATFORM_CUT_PERCENT_def)

section \<open>Deposit confirmation\<close>

text \<open>
  C5.  The claim does not hold of the code.  White has confirmed a deposit of 200000;
  Black disconnects while the game awaits Black's deposit, which ends the game with
  a pot of 200000.  A further \<open>confirmWagerPayment\<close> for White leaves the phase at
  gameover and raises the pot to 400000.
\<close>

theorem late_confirmation_changes_pot:
  "map_option phase (games (cancelledManager 200000 200000) ''g1'') = Some Gameover
   \<and> map_option pot (games (cancelledManager 200000 200000) ''g1'') = Some 200000
   \<and> map_option phase (games (fst (confirmWagerPayment (cancelledManager 200000 200000)
         ''g1'' White ''tx3'' 3)) ''g1'') = Some Gameover
   \<and> map_option pot (games (fst (confirmWagerPayment (cancelledManager 200000 200000)
         ''g1'' White ''tx3'' 3)) ''g1'') = Some 400000"
  by (simp add: cancelledManager_def sampleManager_def confirmWagerPayment_def newManager_def
      storeGame_def Let_def sampleGame_def mkPlayer_def handleDisconnect_def
      gameRefBySocket_def getSlot_def opponentSlot_def clearTurnTimer_def
      clearDisconnectTimer_def timerKey_def)

text \<open>
  C6.  The claim does not hold of the code.  In the game ended above,
  \<open>confirmWagerPayment\<close> for Black reports success with both seats paid, puts the
  game back into phase playing and raises the pot to 400000.  In a game that still
  awaits deposits, a second confirmation for White, who has already confirmed, reports
  success and adds the deposit to the pot a second time.
\<close>

theorem confirmation_is_unguarded:
  "map_option phase (games (cancelledManager 200000 200000) ''g1'') = Some Gameover
   \<and> snd (confirmWagerPayment (cancelledManager 200000 200000) ''g1'' Black ''tx2'' 3)
       = \<lparr>wc_success = True, bothPaid = True, wc_error = None\<rparr>
   \<and> map_option phase (games (fst (confirmWagerPayment (cancelledManager 200000 200000)
         ''g1'' Black ''tx2'' 3)) ''g1'') = Some Playing
   \<and> map_option pot (games (fst (confirmWagerPayment (cancelledManager 200000 200000)
         ''g1'' Black ''tx2'' 3)) ''g1'') = Some 400000
   \<and> snd (confirmWagerPayment (fst (confirmWagerPayment (sampleManager 200000 200000)
         ''g1'' White ''tx1'' 1)) ''g1'' White ''tx1'' 2)
       = \<lparr>wc_success = True, bothPaid = False, wc_error = None\<rparr>
   \<and> map_option pot (games (fst (confirmWagerPayment (fst (confirmWagerPayment
         (sampleManager 200000 200000) ''g1'' White ''tx1'' 1)) ''g1'' White ''tx1'' 2)) ''g1'')
       = Some 400000"
  by (simp add: cancelledManager_def sampleManager_def confirmWagerPayment_def newManager_def
      storeGame_def Let_def sampleGame_def mkPlayer_def handleDisconnect_def
      gameRefBySocket_def getSlot_def opponentSlot_def clearTurnTimer_def
      clearDisconnectTimer_def timerKey_def startTurnTimer_def setTimeout_def)

section \<open>Timers that fire after the game is over\<close>

text \<open>
  C7.  When the game registered under the captured id is in phase gameover, each of
  the three timer closures (turn clock, funds-pause clock, disconnect-grace clock)
  returns the manager as it found it, with no settlement computed and no callback
  invoked.  The closures have no failing branch.
\<close>

theorem stale_timer_is_ignored:
  assumes "games m gameId = Some g" and "phase g = Gameover"
  shows "turnTimerExpired eng m gameId now
           = \<lparr>tf_manager = m, tf_settlements = [], tf_callbacks = []\<rparr>
       \<and> pauseTimerExpired m gameId forSlot now
           = \<lparr>tf_manager = m, tf_settlements = [], tf_callbacks = []\<rparr>
       \<and> disconnectTimerExpired m gameId slot now
           = \<lparr>tf_manager = m, tf_settlements = [], tf_callbacks = []\<rparr>"
  using assms
  by (simp add: turnTimerExpired_def pauseTimerExpired_def disconnectTimerExpired_def idle_def)

theorem stale_timer_is_ignored_witness:
  "turnTimerExpired plyEngine (fst (resign (startedManager 200000 200000) ''s1'' 5)) ''g1'' 6
     = \<lparr>tf_manager = fst (resign (startedManager 200000 200000) ''s1'' 5),
        tf_settlements = [], tf_callbacks = []\<rparr>
   \<and> pauseTimerExpired (fst (resign (startedManager 200000 200000) ''s1'' 5)) ''g1'' White 6
     = \<lparr>tf_manager = fst (resign (startedManager 200000 200000) ''s1'' 5),
        tf_settlements = [], tf_callbacks = []\<rparr>
   \<and> disconnectTimerExpired (fst (resign (startedManager 200000 200000) ''s1'' 5)) ''g1'' White 6
     = \<lparr>tf_manager = fst (resign (startedManager 200000 200000) ''s1'' 5),
        tf_settlements = [], tf_callbacks = []\<rparr>"
  by (rule stale_timer_is_ignored[OF resigned_game]) simp

section \<open>One timer per key\<close>

text \<open>
  C8.  The claim does not hold of the code for the funds-pause clock.  After one
  \<open>pauseForFunds\<close> the game has one pending pause timeout (handle 1); after a second
  one it has two (handles 1 and 2), the manager remembers handle 2 only, and
  \<open>clearPauseTimer\<close> leaves handle 1 pending.  The turn clock and the
  disconnect-grace clock do cancel first: restarting either leaves one pending
  timeout for the key.
\<close>

theorem second_pause_leaves_first_timer:
  "activePauseTimers (fst (pausedOnce 200000 200000)) ''g1'' = [1]
   \<and> activePauseTimers (pausedTwice 200000 200000) ''g1'' = [1, 2]
   \<and> pauseTimers (pausedTwice 200000 200000) ''g1'' = Some 2
   \<and> activePauseTimers (clearPauseTimer (pausedTwice 200000 200000) ''g1'') ''g1'' = [1]
   \<and> activeTurnTimers (startedManager 200000 200000) ''g1'' = [0]
   \<and> activeTurnTimers (startTurnTimer (startedManager 200000 200000) (paidGame 200000 200000))
        ''g1'' = [1]
   \<and> activeDisconnectTimers
        (fst (handleDisconnect (fst (handleDisconnect (startedManager 200000 200000) ''s1'' 3))
           ''s1'' 4)) ''g1'' White = [2]"
  by (simp add: pausedTwice_def pausedOnce_def pauseForFunds_def started_manager paid_gid
      activePauseTimers_def activeTurnTimers_def activeDisconnectTimers_def
      clearTurnTimer_def clearPauseTimer_def clearDisconnectTimer_def clearTimeout_def
      setTimeout_def storeGame_def startTurnTimer_def Let_def handleDisconnect_def
      gameRefBySocket_def getSlot_def opponentSlot_def timerKey_def
      paidGame_def sampleGame_def mkPlayer_def)

section \<open>The balance requirement\<close>






section \<open>Accepting a draw\<close>

text \<open>
  C10.  \<open>acceptDraw\<close> succeeds exactly when the caller's connection is bound to a
  registered game whose phase is playing; it then ends that game with reason
  draw_agreement and no winner.  No draw offer is consulted: \<open>offerDraw\<close> returns
  the manager unchanged, so there is no record of an offer to consult.
\<close>

theorem acceptDraw_without_offer:
  "(ad_success (snd (acceptDraw m sid now))
      \<longleftrightarrow> (\<exists>g. getGameBySocket m sid = Some g \<and> phase g = Playing))
   \<and> (ad_success (snd (acceptDraw m sid now)) \<longrightarrow>
        (\<exists>r. ad_result (snd (acceptDraw m sid now)) = Some r
             \<and> res_reason r = Draw_agreement \<and> res_winner r = None)
        \<and> (\<exists>key g'. playerToGame m sid = Some key
             \<and> games (fst (acceptDraw m sid now)) key = Some g'
             \<and> phase g' = Gameover \<and> endReason g' = Some Draw_agreement))
   \<and> fst (offerDraw m sid) = m"
proof (intro conjI)
  show "ad_success (snd (acceptDraw m sid now))
      \<longleftrightarrow> (\<exists>g. getGameBySocket m sid = Some g \<and> phase g = Playing)"
    by (auto simp: acceptDraw_def getGameBySocket_ref split: option.splits prod.splits)
  show "ad_success (snd (acceptDraw m sid now)) \<longrightarrow>
        (\<exists>r. ad_result (snd (acceptDraw m sid now)) = Some r
             \<and> res_reason r = Draw_agreement \<and> res_winner r = None)
        \<and> (\<exists>key g'. playerToGame m sid = Some key
             \<and> games (fst (acceptDraw m sid now)) key = Some g'
             \<and> phase g' = Gameover \<and> endReason g' = Some Draw_agreement)"
  proof (cases "gameRefBySocket m sid")
    case None
    then show ?thesis by (simp add: acceptDraw_def)
  next
    case (Some ref)
    obtain key g where ref: "ref = (key, g)" by (cases ref)
    note k = gameRef_games[OF Some[unfolded ref]]
    show ?thesis
    proof (cases "phase g = Playing")
      case False
      then show ?thesis using Some ref by (simp add: acceptDraw_def)
    next
      case True
      obtain m1 g1 r where e: "endGameDraw m g Draw_agreement now = (m1, g1, r)"
        by (cases "endGameDraw m g Draw_agreement now")
      have r: "r = snd (snd (endGameDraw m g Draw_agreement now))"
        and g1: "g1 = fst (snd (endGameDraw m g Draw_agreement now))" using e by simp_all
      have "res_reason r = Draw_agreement" "res_winner r = None"
        unfolding r by (simp_all add: endGameDraw_result)
      moreover have "phase g1 = Gameover" "endReason g1 = Some Draw_agreement"
        unfolding g1 by (simp_all add: endGameDraw_game)
      ultimately show ?thesis using Some ref True e k
        by (simp add: acceptDraw_def)
    qed
  qed
  show "fst (offerDraw m sid) = m"
    by (simp add: offerDraw_def split: option.splits)
qed

theorem acceptDraw_without_offer_witness:
  "ad_success (snd (acceptDraw (startedManager 200000 200000) ''s2'' 5))
   \<and> (\<exists>g. getGameBySocket (startedManager 200000 200000) ''s2'' = Some g \<and> phase g = Playing)"
  using acceptDraw_without_offer[of "startedManager 200000 200000" "''s2''" 5]
  by (simp add: started_manager getGameBySocket_def paidGame_def sampleGame_def)

end
